theory Spec2Isabelle
  imports Complex_Main
begin

section \<open>FASTER bad-channel and bad-epoch detection (mne\_sandbox.preprocessing.bads)\<close>

text \<open>
  A shallow embedding of \<^verbatim>\<open>faster_.py\<close> and \<^verbatim>\<open>bads.py\<close>.
  Arrays are lists (a 2-D array is a list of rows, a 3-D block of epochs is a list of
  epochs, each a list of channels, each a list of samples). Floating-point numbers are
  modelled as exact reals: rounding, \<^verbatim>\<open>nan\<close> and infinities are not modelled.
  Every exception the Python raises is a value of type \<open>error\<close>.
\<close>

subsection \<open>Errors\<close>

datatype error =
    NotImplementedError
      \<comment> \<open>bads.py: 'Come back later, for now there is only "FASTER"'\<close>
  | MissingPositionError
      \<comment> \<open>ValueError: 'Cannot perform correction for distance to reference sensor: not all
          selected channels have position information.'\<close>
  | MissingReferenceError
      \<comment> \<open>ValueError: 'Cannot perform correction for distance to reference sensor: the
          location of the reference sensor is not specified for all selected channels.'\<close>
  | LineNoiseSampleRateError "real list"
      \<comment> \<open>ValueError: 'Insufficient sample rate to estimate power at [freqs] Hz for line
          noise detection. Use the 'metrics' parameter to disable the 'line_noise'
          metric.'\<close>
  | KeyError string
  | IndexError
  | AxisError
  | TypeError
  | LinAlgError
  | OverflowError
  | ValueError

definition ebind :: "error + 'a \<Rightarrow> ('a \<Rightarrow> error + 'b) \<Rightarrow> error + 'b" where
  "ebind r f = (case r of Inl e \<Rightarrow> Inl e | Inr v \<Rightarrow> f v)"

subsection \<open>The spectral estimator's segment length\<close>

text \<open>Python's \<^verbatim>\<open>int(x)\<close> on a float truncates towards zero.\<close>

definition py_int :: "real \<Rightarrow> int" where
  "py_int r = (if r < 0 then \<lceil>r\<rceil> else \<lfloor>r\<rfloor>)"

text \<open>
  \<^verbatim>\<open>nperseg = min(data.shape[-1], 2 ** int(np.log2(10 * sfreq) + 1))  # next power of 2\<close>

  \<^verbatim>\<open>np.log2(0)\<close> is minus infinity, on which \<^verbatim>\<open>int\<close> raises OverflowError;
  \<^verbatim>\<open>np.log2\<close> of a negative number is \<^verbatim>\<open>nan\<close>, on which \<^verbatim>\<open>int\<close> raises
  ValueError. \<^verbatim>\<open>2 ** k\<close> with a negative integer \<open>k\<close> is the float \<open>2 powi k\<close>.
\<close>

definition efficient_welch_nperseg :: "nat \<Rightarrow> real \<Rightarrow> error + real" where
  "efficient_welch_nperseg n_samples sfreq =
     (if 10 * sfreq = 0 then Inl OverflowError
      else if 10 * sfreq < 0 then Inl ValueError
      else Inr (min (real n_samples) (2 powi py_int (log 2 (10 * sfreq) + 1))))"

text \<open>
  The segment length as the specification words it: the largest power of two not
  exceeding the 10-second window of \<open>10 * sfreq\<close> samples, clamped to the sample count.
\<close>

definition nperseg_spec :: "nat \<Rightarrow> real \<Rightarrow> real" where
  "nperseg_spec n_samples sfreq = min (real n_samples) (2 powi \<lfloor>log 2 (10 * sfreq)\<rfloor>)"

subsection \<open>Error-passing combinators\<close>

fun emap :: "('a \<Rightarrow> error + 'b) \<Rightarrow> 'a list \<Rightarrow> error + 'b list" where
  "emap f [] = Inr []"
| "emap f (x # xs) = ebind (f x) (\<lambda>y. ebind (emap f xs) (\<lambda>ys. Inr (y # ys)))"

fun efold :: "('a \<Rightarrow> 's \<Rightarrow> error + 's) \<Rightarrow> 'a list \<Rightarrow> 's \<Rightarrow> error + 's" where
  "efold f [] s = Inr s"
| "efold f (x # xs) s = ebind (f x s) (efold f xs)"

text \<open>\<^verbatim>\<open>xs[i]\<close> and the fancy index \<^verbatim>\<open>xs[idx]\<close>, which raise IndexError out of range.
  Indices are natural numbers: negative (wrapping) indices are not modelled.\<close>

definition nth_err :: "'a list \<Rightarrow> nat \<Rightarrow> error + 'a" where
  "nth_err xs i = (if i < length xs then Inr (xs ! i) else Inl IndexError)"

definition select :: "'a list \<Rightarrow> nat list \<Rightarrow> error + 'a list" where
  "select xs idx =
     (if list_all (\<lambda>i. i < length xs) idx then Inr (map ((!) xs) idx) else Inl IndexError)"

subsection \<open>Data model\<close>

text \<open>
  The Epochs collaborator: \<^verbatim>\<open>epochs.info['chs'][ch]['loc']\<close> holds the sensor position in
  \<^verbatim>\<open>loc[:3]\<close> and the reference position in \<^verbatim>\<open>loc[3:6]\<close>;
  \<^verbatim>\<open>epochs.get_data()\<close> has shape (epochs, channels, samples);
  \<^verbatim>\<open>epochs.ch_names\<close> is \<^verbatim>\<open>epochs.info['ch_names']\<close>.
\<close>

record ch_info =
  ch_loc :: "real list"

record info =
  info_chs :: "ch_info list"
  info_ch_names :: "string list"
  info_sfreq :: real

record epochs =
  ep_info :: info
  ep_data :: "real list list list"

text \<open>The keyword arguments \<^verbatim>\<open>**_method_params\<close> of the FASTER implementation.\<close>

record faster_params =
  p_use_metrics :: "string list option"
  p_thresh :: real
  p_max_iter :: int
  p_eeg_ref_corr :: bool

text \<open>
  What the code calls and this repository's sources do not define: functions of scipy,
  numpy and mne, and the repository's own \<^verbatim>\<open>outliers.find_outliers\<close> and
  \<^verbatim>\<open>defaults._handle_default\<close>. They are parameters of the model.
  \<^item> \<open>welch rows sfreq nperseg\<close> is
    \<^verbatim>\<open>scipy.signal.welch(data, sfreq, nperseg=nperseg, noverlap=0, axis=-1)\<close>, which works
    along the last axis: \<open>rows\<close> are the timeseries of the array in row-major order, and
    the result is the exception that welch raises (a ValueError when \<open>nperseg\<close> is below 1,
    for one) or the frequency axis with one power spectrum per timeseries.
  \<^item> \<open>find_outliers scores thresh max_iter\<close> is the outlier selector.
  \<^item> \<open>pick_info\<close>, \<open>picks_by_type\<close> and \<open>pick_types\<close> are mne's channel selection;
    \<open>pick_types info exclude_bads\<close> is \<^verbatim>\<open>pick_types(info, meg=True, eeg=True, exclude=...)\<close>
    with \<open>exclude_bads\<close> for \<^verbatim>\<open>exclude='bads'\<close>.
  \<^item> \<open>handle_default key method_params\<close> is \<^verbatim>\<open>_handle_default\<close>.
\<close>

record 'mp ext =
  welch :: "real list list \<Rightarrow> real \<Rightarrow> real \<Rightarrow> error + (real list \<times> real list list)"
  find_outliers :: "real list \<Rightarrow> real \<Rightarrow> int \<Rightarrow> nat list"
  pick_info :: "info \<Rightarrow> nat list \<Rightarrow> info"
  picks_by_type :: "info \<Rightarrow> (string \<times> nat list) list"
  pick_types :: "info \<Rightarrow> bool \<Rightarrow> nat list"
  handle_default :: "string \<Rightarrow> 'mp \<Rightarrow> error + faster_params"

subsection \<open>numpy and scipy on lists of reals\<close>

text \<open>
  Library functions by their documented formulas. Where numpy yields \<^verbatim>\<open>nan\<close> (the mean
  or median of an empty array, a division of zero by zero), the model has HOL's value of
  a division by zero, which is 0.
\<close>

definition np_mean :: "real list \<Rightarrow> real" where
  "np_mean xs = sum_list xs / real (length xs)"

definition np_var :: "real list \<Rightarrow> real" where
  "np_var xs = np_mean (map (\<lambda>v. (v - np_mean xs)\<^sup>2) xs)"

text \<open>\<^verbatim>\<open>np.ptp\<close> raises ValueError on an empty axis.\<close>

definition np_ptp :: "real list \<Rightarrow> error + real" where
  "np_ptp xs = (if xs = [] then Inl ValueError else Inr (Max (set xs) - Min (set xs)))"

definition np_diff :: "real list \<Rightarrow> real list" where
  "np_diff xs = map2 (\<lambda>a b. b - a) xs (tl xs)"

fun cumsum_from :: "real \<Rightarrow> real list \<Rightarrow> real list" where
  "cumsum_from acc [] = []"
| "cumsum_from acc (x # xs) = (acc + x) # cumsum_from (acc + x) xs"

definition np_cumsum :: "real list \<Rightarrow> real list" where
  "np_cumsum xs = cumsum_from 0 xs"

definition np_median :: "real list \<Rightarrow> real" where
  "np_median xs =
     (let s = sort xs; n = length xs
      in if n = 0 then 0
         else if even n then (s ! (n div 2 - 1) + s ! (n div 2)) / 2
         else s ! (n div 2))"

text \<open>\<^verbatim>\<open>scipy.signal.lfilter(b, 1, y)\<close>: the FIR filter
  \<open>out[n] = b[0] * y[n] + b[1] * y[n - 1] + ...\<close> with zero initial state.\<close>

definition lfilter :: "real list \<Rightarrow> real list \<Rightarrow> real list" where
  "lfilter b y =
     map (\<lambda>n. \<Sum>k\<leftarrow>[0..<length b]. if k \<le> n then b ! k * y ! (n - k) else 0)
       [0..<length y]"

text \<open>\<^verbatim>\<open>scipy.stats.kurtosis(x)\<close>: Fisher's definition, biased estimator.\<close>

definition kurtosis :: "real list \<Rightarrow> real" where
  "kurtosis xs =
     np_mean (map (\<lambda>v. (v - np_mean xs) ^ 4) xs) / (np_var xs)\<^sup>2 - 3"

text \<open>\<^verbatim>\<open>np.corrcoef(x)[i][j]\<close> for the rows of \<open>x\<close>.\<close>

definition covariance :: "real list \<Rightarrow> real list \<Rightarrow> real" where
  "covariance xs ys =
     np_mean (map2 (\<lambda>a b. (a - np_mean xs) * (b - np_mean ys)) xs ys)"

definition corrcoef :: "real list list \<Rightarrow> real list list" where
  "corrcoef x =
     map (\<lambda>xi. map (\<lambda>xj. covariance xi xj / sqrt (covariance xi xi * covariance xj xj)) x) x"

text \<open>\<^verbatim>\<open>np.mean(np.ma.masked_array(np.corrcoef(x), np.identity(len(x), dtype=bool)), axis=0)\<close>:
  the mean of each column of the correlation matrix without its diagonal entry.\<close>

definition correlation :: "real list list \<Rightarrow> real list" where
  "correlation x =
     (let c = corrcoef x; n = length x
      in map (\<lambda>j. (\<Sum>i\<leftarrow>[0..<n]. if i = j then 0 else c ! i ! j) / real (n - 1)) [0..<n])"

subsection \<open>The Hurst exponent\<close>

text \<open>
  \<^verbatim>\<open>_hurst\<close>, on one channel. The slices \<^verbatim>\<open>y1[:, len(b1) - 1:-1]\<close> and
  \<^verbatim>\<open>y2[:, len(b2) - 1:-1]\<close> drop the first \<open>len(b) - 1\<close> values and the last value.
\<close>

definition hurst_channel :: "real list \<Rightarrow> real" where
  "hurst_channel x =
     (let y = np_cumsum (np_diff x);
          b1 = [1, - 2, 1];
          b2 = [1, 0, - 2, 0, 1];
          y1 = butlast (drop (length b1 - 1) (lfilter b1 y));
          y2 = butlast (drop (length b2 - 1) (lfilter b2 y));
          s1 = np_mean (map (\<lambda>v. v\<^sup>2) y1);
          s2 = np_mean (map (\<lambda>v. v\<^sup>2) y2)
      in 0.5 * log 2 (s2 / s1))"

definition hurst :: "real list list \<Rightarrow> real list" where
  "hurst x = map hurst_channel x"

text \<open>
  The estimator as the specification words it: the two FIR filters applied to the
  cumulative sum of the first differences, with the initial filter-artifact samples
  dropped.
\<close>

definition hurst_spec_channel :: "real list \<Rightarrow> real" where
  "hurst_spec_channel x =
     (let y = np_cumsum (np_diff x);
          y1 = drop 2 (lfilter [1, - 2, 1] y);
          y2 = drop 4 (lfilter [1, 0, - 2, 0, 1] y)
      in 1 / 2 * log 2 (np_mean (map (\<lambda>v. v\<^sup>2) y2) / np_mean (map (\<lambda>v. v\<^sup>2) y1)))"

subsection \<open>Spectral power at target frequencies\<close>

text \<open>\<^verbatim>\<open>data.shape[-1]\<close> of a 2-D and of a 3-D array.\<close>

definition n_samples2 :: "real list list \<Rightarrow> nat" where
  "n_samples2 data = (case data of [] \<Rightarrow> 0 | x # _ \<Rightarrow> length x)"

definition n_samples3 :: "real list list list \<Rightarrow> nat" where
  "n_samples3 data = (case data of [] \<Rightarrow> 0 | e # _ \<Rightarrow> n_samples2 e)"

text \<open>The rows of a flattened array put back into groups of the given sizes.\<close>

fun unflatten :: "nat list \<Rightarrow> 'a list \<Rightarrow> 'a list list" where
  "unflatten [] xs = []"
| "unflatten (n # ns) xs = take n xs # unflatten ns (drop n xs)"

text \<open>
  \<^verbatim>\<open>_efficient_welch\<close> on a 2-D array (channels, samples) and on a 3-D array
  (epochs, channels, samples): the frequency axis and the power spectra, or the
  exception of the segment length or of welch. Nothing in \<^verbatim>\<open>_efficient_welch\<close> or around
  its call catches such an exception.
\<close>

definition efficient_welch ::
  "'mp ext \<Rightarrow> real list list \<Rightarrow> real \<Rightarrow> error + (real list \<times> real list list)" where
  "efficient_welch lib data sfreq =
     ebind (efficient_welch_nperseg (n_samples2 data) sfreq) (\<lambda>nperseg.
       welch lib data sfreq nperseg)"

definition efficient_welch3 ::
  "'mp ext \<Rightarrow> real list list list \<Rightarrow> real \<Rightarrow> error + (real list \<times> real list list list)" where
  "efficient_welch3 lib data sfreq =
     ebind (efficient_welch_nperseg (n_samples3 data) sfreq) (\<lambda>nperseg.
     ebind (welch lib (concat data) sfreq nperseg) (\<lambda>(fs, ps).
       Inr (fs, unflatten (map length data) ps)))"

text \<open>\<^verbatim>\<open>np.searchsorted(fs, f)\<close> on the ascending frequency axis: the number of
  frequencies below \<open>f\<close>, which is the index of the first frequency that is at least \<open>f\<close>.\<close>

definition searchsorted :: "real list \<Rightarrow> real \<Rightarrow> nat" where
  "searchsorted fs f = length (takeWhile (\<lambda>v. v < f) fs)"

text \<open>
  \<^verbatim>\<open>_freqs_power\<close>: \<^verbatim>\<open>ps[..., np.searchsorted(fs, f)]\<close> raises IndexError when the index
  is the length of the last axis of \<open>ps\<close>, which is the length of \<open>fs\<close>; the code turns it
  into the ValueError on the sample rate.
\<close>

definition freqs_power :: "'mp ext \<Rightarrow> real list list \<Rightarrow> real \<Rightarrow> real list \<Rightarrow> error + real list" where
  "freqs_power lib data sfreq freqs =
     ebind (efficient_welch lib data sfreq) (\<lambda>(fs, ps).
       if list_all (\<lambda>f. searchsorted fs f < length fs) freqs
       then Inr (map (\<lambda>p. \<Sum>f\<leftarrow>freqs. p ! searchsorted fs f) ps)
       else Inl (LineNoiseSampleRateError freqs))"

definition freqs_power3 ::
  "'mp ext \<Rightarrow> real list list list \<Rightarrow> real \<Rightarrow> real list \<Rightarrow> error + real list list" where
  "freqs_power3 lib data sfreq freqs =
     ebind (efficient_welch3 lib data sfreq) (\<lambda>(fs, ps).
       if list_all (\<lambda>f. searchsorted fs f < length fs) freqs
       then Inr (map (map (\<lambda>p. \<Sum>f\<leftarrow>freqs. p ! searchsorted fs f)) ps)
       else Inl (LineNoiseSampleRateError freqs))"

text \<open>The \<^verbatim>\<open>'line_noise'\<close> entries of the metric tables.\<close>

definition line_noise :: "'mp ext \<Rightarrow> real \<Rightarrow> real list list \<Rightarrow> error + real list" where
  "line_noise lib sfreq x = freqs_power lib x sfreq [50, 60]"

definition line_noise3 :: "'mp ext \<Rightarrow> real \<Rightarrow> real list list list \<Rightarrow> error + real list list" where
  "line_noise3 lib sfreq x = freqs_power3 lib x sfreq [50, 60]"

text \<open>The frequency axis that \<^verbatim>\<open>scipy.signal.welch\<close> documents for a real signal:
  \<^verbatim>\<open>np.fft.rfftfreq(nperseg, 1 / sfreq)\<close>, the multiples \<open>k * sfreq / nperseg\<close> for
  \<open>k = 0, ..., nperseg // 2\<close>.\<close>

definition rfftfreq :: "real \<Rightarrow> real \<Rightarrow> real list" where
  "rfftfreq sfreq nperseg =
     map (\<lambda>k. real k * sfreq / nperseg) [0..<nat \<lfloor>nperseg\<rfloor> div 2 + 1]"

subsection \<open>The outlier selector\<close>

text \<open>
  Modelled from the spec: the outlier selector \<^verbatim>\<open>find_outliers\<close> of the module
  \<^verbatim>\<open>outliers\<close>, which \<^verbatim>\<open>faster_.py\<close> imports and whose source is missing. The
  specification's contract is
  \<^verbatim>\<open>select_outliers(scores, thresh, max_iter) -> set of int\<close>: maintain a working subset
  initialized to all indices; repeat up to \<open>max_iter\<close> times: compute mean and standard
  deviation of the scores restricted to the current working subset; mark as outliers
  (for this iteration) any index in the full vector whose deviation from that mean
  exceeds \<open>thresh\<close> standard deviations; remove newly-marked indices from the working
  subset; stop early if no new outliers were found in an iteration. Return the union of
  all indices removed across iterations. A zero standard deviation produces no new
  outliers.
\<close>

definition np_std :: "real list \<Rightarrow> real" where
  "np_std xs = sqrt (np_var xs)"

definition flag_outliers :: "real list \<Rightarrow> real \<Rightarrow> nat list \<Rightarrow> nat list" where
  "flag_outliers scores thresh working =
     (let sub = map ((!) scores) working;
          m = np_mean sub;
          s = np_std sub
      in if s = 0 then []
         else filter (\<lambda>i. thresh * s < \<bar>scores ! i - m\<bar>) [0..<length scores])"

fun select_loop :: "real list \<Rightarrow> real \<Rightarrow> nat \<Rightarrow> nat list \<Rightarrow> nat list \<Rightarrow> nat list" where
  "select_loop scores thresh 0 working removed = removed"
| "select_loop scores thresh (Suc n) working removed =
     (let new = filter (\<lambda>i. i \<in> set working) (flag_outliers scores thresh working)
      in if new = [] then removed
         else select_loop scores thresh n (filter (\<lambda>i. i \<notin> set new) working) (removed @ new))"

definition select_outliers :: "real list \<Rightarrow> real \<Rightarrow> int \<Rightarrow> nat set" where
  "select_outliers scores thresh max_iter =
     set (select_loop scores thresh (nat max_iter) [0..<length scores] [])"

subsection \<open>Correction for the distance to the reference sensor\<close>

definition all_zero :: "real list \<Rightarrow> bool" where
  "all_zero v = list_all (\<lambda>c. c = 0) v"

text \<open>\<^verbatim>\<open>np.linalg.norm\<close> of a row, \<^verbatim>\<open>np.dot\<close> of two rows, the row divided by its
  norm, and \<^verbatim>\<open>np.polyval\<close> (coefficients from the highest degree down).\<close>

definition np_norm :: "real list \<Rightarrow> real" where
  "np_norm v = sqrt (\<Sum>c\<leftarrow>v. c\<^sup>2)"

definition np_dot :: "real list \<Rightarrow> real list \<Rightarrow> real" where
  "np_dot a b = (\<Sum>(x, y)\<leftarrow>zip a b. x * y)"

definition normalized :: "real list \<Rightarrow> real list" where
  "normalized v = map (\<lambda>c. c / np_norm v) v"

definition polyval :: "real list \<Rightarrow> real \<Rightarrow> real" where
  "polyval p a = foldl (\<lambda>acc c. acc * a + c) 0 p"

text \<open>The sensor position \<^verbatim>\<open>loc[:3]\<close> and the reference position \<^verbatim>\<open>loc[3:6]\<close> of a
  channel, and the angle between them.\<close>

definition sensor_pos :: "info \<Rightarrow> nat \<Rightarrow> real list" where
  "sensor_pos info ch = take 3 (ch_loc (info_chs info ! ch))"

definition reference_pos :: "info \<Rightarrow> nat \<Rightarrow> real list" where
  "reference_pos info ch = take 3 (drop 3 (ch_loc (info_chs info ! ch)))"

definition angular_distance :: "info \<Rightarrow> nat \<Rightarrow> real" where
  "angular_distance info ch =
     arccos (np_dot (normalized (sensor_pos info ch)) (normalized (reference_pos info ch)))"


text \<open>
  \<^verbatim>\<open>np.polyfit(xs, ys, 2)\<close> returns coefficients \<open>[c2, c1, c0]\<close> that minimise the sum of
  squared residuals of \<open>c2 * x^2 + c1 * x + c0\<close> on the points \<open>(xs[i], ys[i])\<close>. The model
  computes a minimiser with orthogonal polynomials: with \<open>xm\<close> the mean of the \<open>xs\<close>, the
  points are fitted by \<open>c0 + c1 * (x - xm) + c2 * phi x\<close>, where
  \<open>phi x = (x - xm)^2 - k * (x - xm) - m\<close> is orthogonal on the \<open>xs\<close> to 1 and to \<open>x - xm\<close>.
  A coefficient whose basis polynomial vanishes on all the \<open>xs\<close> is 0. Where the
  minimiser is unique (three or more distinct \<open>xs\<close>) this is numpy's result in exact
  arithmetic; otherwise numpy returns the minimiser of least norm, which has the same
  values on the \<open>xs\<close>, and \<^verbatim>\<open>_distance_correction\<close> uses these values only.
\<close>

definition lsq_quadratic :: "real list \<Rightarrow> real list \<Rightarrow> real list" where
  "lsq_quadratic xs ys =
     (let ps = zip xs ys;
          n = real (length ps);
          xm = (\<Sum>p\<leftarrow>ps. fst p) / n;
          s2 = (\<Sum>p\<leftarrow>ps. (fst p - xm)\<^sup>2);
          s3 = (\<Sum>p\<leftarrow>ps. (fst p - xm) ^ 3);
          k = (if s2 = 0 then 0 else s3 / s2);
          m = s2 / n;
          sp = (\<Sum>p\<leftarrow>ps. ((fst p - xm)\<^sup>2 - k * (fst p - xm) - m)\<^sup>2);
          c0 = (\<Sum>p\<leftarrow>ps. snd p) / n;
          c1 = (if s2 = 0 then 0 else (\<Sum>p\<leftarrow>ps. (fst p - xm) * snd p) / s2);
          c2 = (if sp = 0 then 0
                else (\<Sum>p\<leftarrow>ps. ((fst p - xm)\<^sup>2 - k * (fst p - xm) - m) * snd p) / sp)
      in [c2, c1 - c2 * (2 * xm + k), c0 - c1 * xm + c2 * (xm\<^sup>2 + k * xm - m)])"

text \<open>
  The exceptions of \<^verbatim>\<open>np.polyfit(xs, ys, 2)\<close>: TypeError for an empty \<open>xs\<close> and for \<open>xs\<close>
  and \<open>ys\<close> of different lengths; LinAlgError when all \<open>xs\<close> are 0, since polyfit divides
  the columns \<open>x^2\<close>, \<open>x\<close> and 1 of its matrix by their norms before it solves, and a zero
  column becomes \<^verbatim>\<open>nan\<close>, on which the solver fails ("SVD did not converge").
\<close>

definition np_polyfit2 :: "real list \<Rightarrow> real list \<Rightarrow> error + real list" where
  "np_polyfit2 xs ys =
     (if xs = [] then Inl TypeError
      else if length xs \<noteq> length ys then Inl TypeError
      else if list_all (\<lambda>a. a = 0) xs then Inl LinAlgError
      else Inr (lsq_quadratic xs ys))"

text \<open>
  \<^verbatim>\<open>_distance_correction(info, picks, x)\<close>. Reading \<^verbatim>\<open>info['chs'][ch]\<close> raises IndexError
  for a pick out of range; with no picks, \<^verbatim>\<open>np.all(pos == 0, axis=1)\<close> is applied to a 1-D
  array and raises AxisError; the exceptions of \<^verbatim>\<open>np.polyfit\<close> are not caught.
\<close>

definition distance_correction :: "info \<Rightarrow> nat list \<Rightarrow> real list \<Rightarrow> error + real list" where
  "distance_correction info picks x =
     (if \<not> list_all (\<lambda>ch. ch < length (info_chs info)) picks then Inl IndexError
      else if picks = [] then Inl AxisError
      else if list_ex (\<lambda>ch. all_zero (sensor_pos info ch)) picks then Inl MissingPositionError
      else if list_ex (\<lambda>ch. all_zero (reference_pos info ch)) picks then Inl MissingReferenceError
      else let angles = map (angular_distance info) picks
           in ebind (np_polyfit2 angles x) (\<lambda>fit.
                Inr (map2 (\<lambda>xi a. xi - polyval fit a) x angles)))"

subsection \<open>The metric tables\<close>

text \<open>\<^verbatim>\<open>_deviation\<close>: the mean over time of every channel in every epoch, minus the mean
  of these channel means over the epochs.\<close>

definition axis0_mean :: "real list list \<Rightarrow> real list" where
  "axis0_mean m =
     map (\<lambda>c. np_mean (map (\<lambda>row. row ! c) m)) [0..<(case m of [] \<Rightarrow> 0 | r # _ \<Rightarrow> length r)]"

definition deviation :: "real list list list \<Rightarrow> real list list" where
  "deviation data =
     (let ch_mean = map (map np_mean) data
      in map (\<lambda>row. map2 (\<lambda>a b. a - b) row (axis0_mean ch_mean)) ch_mean)"

text \<open>The dictionaries \<^verbatim>\<open>metrics\<close> of the three detection levels, in the order of their
  keys. The bad-channel metrics score the rows of a 2-D array (channels, samples); the
  bad-epoch metrics score the epochs of a 3-D array; the bad-channel-in-epoch metrics
  score every channel of every epoch.\<close>

definition bad_channel_metrics ::
  "'mp ext \<Rightarrow> real \<Rightarrow> (string \<times> (real list list \<Rightarrow> error + real list)) list" where
  "bad_channel_metrics lib sfreq =
     [(''variance'', \<lambda>x. Inr (map np_var x)),
      (''correlation'', \<lambda>x. Inr (correlation x)),
      (''hurst'', \<lambda>x. Inr (hurst x)),
      (''kurtosis'', \<lambda>x. Inr (map kurtosis x)),
      (''line_noise'', \<lambda>x. line_noise lib sfreq x)]"

definition bad_epoch_metrics ::
  "(string \<times> (real list list list \<Rightarrow> error + real list)) list" where
  "bad_epoch_metrics =
     [(''amplitude'', \<lambda>x. ebind (emap (emap np_ptp) x) (\<lambda>p. Inr (map np_mean p))),
      (''deviation'', \<lambda>x. Inr (map np_mean (deviation x))),
      (''variance'', \<lambda>x. Inr (map (\<lambda>ep. np_mean (map np_var ep)) x))]"

definition bad_channel_in_epoch_metrics ::
  "'mp ext \<Rightarrow> real \<Rightarrow> (string \<times> (real list list list \<Rightarrow> error + real list list)) list" where
  "bad_channel_in_epoch_metrics lib sfreq =
     [(''amplitude'', \<lambda>x. emap (emap np_ptp) x),
      (''deviation'', \<lambda>x. Inr (deviation x)),
      (''variance'', \<lambda>x. Inr (map (map np_var) x)),
      (''median_gradient'', \<lambda>x. Inr (map (map (\<lambda>s. np_median (map abs (np_diff s)))) x)),
      (''line_noise'', \<lambda>x. line_noise3 lib sfreq x)]"

text \<open>\<^verbatim>\<open>metrics[metric]\<close> raises KeyError for a name that is not a key.\<close>

definition lookup_metric :: "(string \<times> 'f) list \<Rightarrow> string \<Rightarrow> error + 'f" where
  "lookup_metric metrics metric =
     (case map_of metrics metric of None \<Rightarrow> Inl (KeyError metric) | Some f \<Rightarrow> Inr f)"

text \<open>\<^verbatim>\<open>if use_metrics is None: use_metrics = metrics.keys()\<close>\<close>

definition metrics_to_use :: "(string \<times> 'f) list \<Rightarrow> string list option \<Rightarrow> string list" where
  "metrics_to_use metrics use_metrics =
     (case use_metrics of None \<Rightarrow> map fst metrics | Some names \<Rightarrow> names)"

subsection \<open>Detection of bad channels and bad epochs\<close>

text \<open>\<^verbatim>\<open>bads[metric].append(v)\<close> on a \<^verbatim>\<open>defaultdict(list)\<close>, which keeps its keys in
  the order of their first use.\<close>

definition dict_append :: "(string \<times> 'a list) list \<Rightarrow> string \<Rightarrow> 'a \<Rightarrow> (string \<times> 'a list) list" where
  "dict_append d k v =
     (if map_of d k = None then d @ [(k, [v])]
      else map (\<lambda>(k', vs). if k' = k then (k', vs @ [v]) else (k', vs)) d)"

text \<open>\<^verbatim>\<open>epochs.get_data()[:, picks]\<close>\<close>

definition picked_data :: "epochs \<Rightarrow> nat list \<Rightarrow> error + real list list list" where
  "picked_data epochs picks = emap (\<lambda>ep. select ep picks) (ep_data epochs)"

text \<open>\<^verbatim>\<open>data.transpose(1, 0, 2).reshape(data.shape[1], -1)\<close>: for every picked channel,
  its epochs concatenated in time.\<close>

definition concatenate_epochs :: "nat \<Rightarrow> real list list list \<Rightarrow> real list list" where
  "concatenate_epochs n_picks data = map (\<lambda>c. concat (map (\<lambda>ep. ep ! c) data)) [0..<n_picks]"

text \<open>\<^verbatim>\<open>_find_bad_channels\<close>. With no picks, \<^verbatim>\<open>data.shape[1]\<close> is 0 and
  \<^verbatim>\<open>reshape(data.shape[1], -1)\<close> raises ValueError: the other dimension cannot be
  inferred.\<close>

definition faster_find_bad_channels ::
  "'mp ext \<Rightarrow> epochs \<Rightarrow> nat list \<Rightarrow> string list option \<Rightarrow> real \<Rightarrow> int \<Rightarrow> bool
     \<Rightarrow> error + (string \<times> string list) list" where
  "faster_find_bad_channels lib epochs picks use_metrics thresh max_iter eeg_ref_corr =
     (let metrics = bad_channel_metrics lib (info_sfreq (ep_info epochs));
          use = metrics_to_use metrics use_metrics
      in ebind (picked_data epochs picks) (\<lambda>data3.
         if picks = [] then Inl ValueError else
         let data = concatenate_epochs (length picks) data3;
             info = pick_info lib (ep_info epochs) picks
         in ebind
              (efold (\<lambda>(ch_type, chs). efold (\<lambda>metric bads.
                   ebind (lookup_metric metrics metric) (\<lambda>f.
                   ebind (select data chs) (\<lambda>sub.
                   ebind (f sub) (\<lambda>scores.
                   ebind (if eeg_ref_corr
                          then distance_correction (ep_info epochs) picks scores
                          else Inr scores) (\<lambda>scores.
                   ebind (emap (\<lambda>i. ebind (nth_err chs i) (\<lambda>c. ebind (nth_err picks c)
                                  (nth_err (info_ch_names (ep_info epochs)))))
                            (find_outliers lib scores thresh max_iter)) (\<lambda>bad_channels.
                   Inr (dict_append bads metric bad_channels))))))) use)
                (picks_by_type lib info) [])
              (\<lambda>bads. Inr (map (\<lambda>(k, v). (k, concat v)) bads))))"

text \<open>\<^verbatim>\<open>_find_bad_epochs\<close>\<close>

definition faster_find_bad_epochs ::
  "'mp ext \<Rightarrow> epochs \<Rightarrow> nat list \<Rightarrow> string list option \<Rightarrow> real \<Rightarrow> int
     \<Rightarrow> error + (string \<times> nat list) list" where
  "faster_find_bad_epochs lib epochs picks use_metrics thresh max_iter =
     (let metrics = bad_epoch_metrics;
          use = metrics_to_use metrics use_metrics;
          info = pick_info lib (ep_info epochs) picks
      in ebind (picked_data epochs picks) (\<lambda>data.
         ebind
           (efold (\<lambda>(ch_type, chs). efold (\<lambda>metric bads.
                ebind (lookup_metric metrics metric) (\<lambda>f.
                ebind (emap (\<lambda>ep. select ep chs) data) (\<lambda>sub.
                ebind (f sub) (\<lambda>scores.
                Inr (dict_append bads metric (find_outliers lib scores thresh max_iter)))))) use)
             (picks_by_type lib info) [])
           (\<lambda>bads. Inr (map (\<lambda>(k, v). (k, concat v)) bads))))"

text \<open>\<^verbatim>\<open>bads[metric][i_epochs, cols] = True\<close> on the boolean masks: IndexError for a row or
  a column out of range.\<close>

definition mask_assign ::
  "(string \<times> bool list list) list \<Rightarrow> string \<Rightarrow> nat \<Rightarrow> nat list
     \<Rightarrow> error + (string \<times> bool list list) list" where
  "mask_assign bads metric i cols =
     (case map_of bads metric of
        None \<Rightarrow> Inl (KeyError metric)
      | Some arr \<Rightarrow>
          if i < length arr \<and> list_all (\<lambda>c. c < length (arr ! i)) cols
          then Inr (map (\<lambda>(k, m).
                 if k = metric then (k, m[i := fold (\<lambda>c row. row[c := True]) cols (m ! i)])
                 else (k, m)) bads)
          else Inl IndexError)"

text \<open>\<^verbatim>\<open>_find_bad_channels_in_epochs\<close>\<close>

definition faster_find_bad_channels_in_epochs ::
  "'mp ext \<Rightarrow> epochs \<Rightarrow> nat list \<Rightarrow> string list option \<Rightarrow> real \<Rightarrow> int \<Rightarrow> bool
     \<Rightarrow> error + (string \<times> bool list list) list" where
  "faster_find_bad_channels_in_epochs lib epochs picks use_metrics thresh max_iter eeg_ref_corr =
     (let metrics = bad_channel_in_epoch_metrics lib (info_sfreq (ep_info epochs));
          use = metrics_to_use metrics use_metrics;
          info = pick_info lib (ep_info epochs) picks
      in ebind (picked_data epochs picks) (\<lambda>data.
         let bads0 = map (\<lambda>(m, f). (m, replicate (length data) (replicate (length picks) False)))
                       metrics
         in efold (\<lambda>(ch_type, chs) bads.
              ebind (emap (nth_err (info_ch_names info)) chs) (\<lambda>ch_names.
              efold (\<lambda>metric bads.
                ebind (lookup_metric metrics metric) (\<lambda>f.
                ebind (emap (\<lambda>ep. select ep chs) data) (\<lambda>sub.
                ebind (f sub) (\<lambda>s_epochs.
                efold (\<lambda>(i_epochs, scores) bads.
                  ebind (if eeg_ref_corr
                         then distance_correction (ep_info epochs) picks scores
                         else Inr scores) (\<lambda>scores.
                  let outliers = find_outliers lib scores thresh max_iter
                  in if 0 < length outliers
                     then ebind (emap (nth_err ch_names) outliers) (\<lambda>bad_segment.
                          ebind (select chs outliers) (\<lambda>cols.
                          mask_assign bads metric i_epochs cols))
                     else Inr bads))
                  (enumerate 0 s_epochs) bads)))) use bads))
              (picks_by_type lib info) bads0))"

subsection \<open>The entry operations of bads.py\<close>

text \<open>What an entry operation returns: the per-metric dictionary, or the combination
  over the metrics.\<close>

datatype ('m, 'c) bads_result = By_metric "(string \<times> 'm) list" | Combined 'c

text \<open>\<^verbatim>\<open>_combine_indices\<close>: \<^verbatim>\<open>list(set(v for val in bads.values() if len(val) > 0 for v in val))\<close>.
  The order of a list made from a Python set is not specified, so the result is a set.\<close>

definition combine_indices :: "(string \<times> 'a list) list \<Rightarrow> 'a set" where
  "combine_indices bads = set (concat (filter (\<lambda>val. 0 < length val) (map snd bads)))"

text \<open>\<^verbatim>\<open>_bad_mask_to_names\<close>\<close>

definition bad_mask_to_names :: "info \<Rightarrow> bool list list \<Rightarrow> error + string list list" where
  "bad_mask_to_names info bad_mask =
     emap (\<lambda>m. emap (nth_err (info_ch_names info)) (filter (\<lambda>k. m ! k) [0..<length m])) bad_mask"

text \<open>\<^verbatim>\<open>np.sum(list(bads.values()), axis=0).astype(bool)\<close> on masks of one shape: the
  booleans are added as the numbers 0 and 1, and a sum that is not 0 is \<open>True\<close>.\<close>

definition mask_to_int :: "bool list list \<Rightarrow> nat list list" where
  "mask_to_int m = map (map of_bool) m"

definition add_arrays :: "nat list list \<Rightarrow> nat list list \<Rightarrow> nat list list" where
  "add_arrays a b = map2 (map2 (+)) a b"

definition sum_masks :: "bool list list list \<Rightarrow> bool list list" where
  "sum_masks masks =
     (case map mask_to_int masks of
        [] \<Rightarrow> []
      | m # ms \<Rightarrow> map (map (\<lambda>n. n \<noteq> 0)) (foldl add_arrays m ms))"

text \<open>\<^verbatim>\<open>find_bad_channels\<close>, \<^verbatim>\<open>find_bad_epochs\<close> and \<^verbatim>\<open>find_bad_channels_in_epochs\<close>.
  \<open>picks\<close> is \<open>None\<close> or a list of channel indices.\<close>

definition find_bad_channels ::
  "'mp ext \<Rightarrow> epochs \<Rightarrow> nat list option \<Rightarrow> string \<Rightarrow> 'mp \<Rightarrow> bool
     \<Rightarrow> error + (string list, string set) bads_result" where
  "find_bad_channels lib epochs picks method method_params return_by_metric =
     (let picks = (case picks of None \<Rightarrow> pick_types lib (ep_info epochs) False | Some p \<Rightarrow> p)
      in ebind (handle_default lib (''bad_channels'' @ ''_'' @ method) method_params) (\<lambda>params.
         ebind (if method = ''faster''
                then faster_find_bad_channels lib epochs picks (p_use_metrics params)
                       (p_thresh params) (p_max_iter params) (p_eeg_ref_corr params)
                else Inl NotImplementedError) (\<lambda>bads.
         if return_by_metric then Inr (By_metric bads)
         else Inr (Combined (combine_indices bads)))))"

definition find_bad_epochs ::
  "'mp ext \<Rightarrow> epochs \<Rightarrow> nat list option \<Rightarrow> bool \<Rightarrow> string \<Rightarrow> 'mp
     \<Rightarrow> error + (nat list, nat set) bads_result" where
  "find_bad_epochs lib epochs picks return_by_metric method method_params =
     (let picks = (case picks of None \<Rightarrow> pick_types lib (ep_info epochs) True | Some p \<Rightarrow> p)
      in ebind (handle_default lib (''bad_epochs'' @ ''_'' @ method) method_params) (\<lambda>params.
         ebind (if method = ''faster''
                then faster_find_bad_epochs lib epochs picks (p_use_metrics params)
                       (p_thresh params) (p_max_iter params)
                else Inl NotImplementedError) (\<lambda>bads.
         if return_by_metric then Inr (By_metric bads)
         else Inr (Combined (combine_indices bads)))))"

definition find_bad_channels_in_epochs ::
  "'mp ext \<Rightarrow> epochs \<Rightarrow> nat list option \<Rightarrow> string \<Rightarrow> 'mp \<Rightarrow> bool
     \<Rightarrow> error + (string list list, string list list) bads_result" where
  "find_bad_channels_in_epochs lib epochs picks method method_params return_by_metric =
     (let picks = (case picks of None \<Rightarrow> pick_types lib (ep_info epochs) False | Some p \<Rightarrow> p)
      in ebind (handle_default lib (''bad_channels_in_epochs'' @ ''_'' @ method) method_params)
           (\<lambda>params.
         ebind (if method = ''faster''
                then faster_find_bad_channels_in_epochs lib epochs picks (p_use_metrics params)
                       (p_thresh params) (p_max_iter params) (p_eeg_ref_corr params)
                else Inl NotImplementedError) (\<lambda>bads.
         let info = pick_info lib (ep_info epochs) picks
         in if return_by_metric
            then ebind (emap (\<lambda>(m, v). ebind (bad_mask_to_names info v) (\<lambda>names. Inr (m, names)))
                          bads) (\<lambda>named. Inr (By_metric named))
            else ebind (bad_mask_to_names info (sum_masks (map snd bads)))
                   (\<lambda>names. Inr (Combined names)))))"

subsection \<open>An instance of the library parameters\<close>

text \<open>
  For evaluating the model on concrete inputs: a welch that raises ValueError for a
  segment length below 1 and otherwise returns the frequency axis of
  \<^verbatim>\<open>scipy.signal.welch\<close> with a stand-in spectrum (the squares of the first samples), the
  outlier selector of the specification, a channel selection that takes every channel
  as an EEG channel, and method defaults for the three keys of the FASTER method
  (\<open>thresh = 3\<close>, \<open>max_iter = 1\<close>, all metrics, no reference correction), with KeyError
  for any other key.
\<close>

definition example_lib :: "faster_params option ext" where
  "example_lib =
     \<lparr> welch = (\<lambda>rows sfreq nperseg.
          if \<lfloor>nperseg\<rfloor> < 1 then Inl ValueError
          else Inr (rfftfreq sfreq nperseg,
                    map (\<lambda>x. map (\<lambda>v. v * v) (take (nat \<lfloor>nperseg\<rfloor> div 2 + 1) x)) rows)),
       find_outliers = (\<lambda>scores thresh max_iter.
          sorted_list_of_set (select_outliers scores thresh max_iter)),
       pick_info = (\<lambda>info picks.
          info\<lparr>info_chs := map ((!) (info_chs info)) picks,
               info_ch_names := map ((!) (info_ch_names info)) picks\<rparr>),
       picks_by_type = (\<lambda>info.
          if info_chs info = [] then [] else [(''eeg'', [0..<length (info_chs info)])]),
       pick_types = (\<lambda>info exclude_bads. [0..<length (info_chs info)]),
       handle_default = (\<lambda>key method_params.
          if key \<in> {''bad_channels_faster'', ''bad_epochs_faster'',
                     ''bad_channels_in_epochs_faster''}
          then Inr (case method_params of
                      None \<Rightarrow> \<lparr>p_use_metrics = None, p_thresh = 3, p_max_iter = 1,
                                p_eeg_ref_corr = False\<rparr>
                    | Some p \<Rightarrow> p)
          else Inl (KeyError key)) \<rparr>"

text \<open>Two epochs of five channels and four samples, sampled at 200 Hz. The reference
  position of every channel is \<open>(1, 0, 0)\<close>.\<close>

definition example_epochs :: epochs where
  "example_epochs =
     \<lparr> ep_info =
         \<lparr> info_chs = map (\<lambda>l. \<lparr>ch_loc = l\<rparr>)
             [[1, 0, 0, 1, 0, 0], [0, 1, 0, 1, 0, 0], [- 1, 0, 0, 1, 0, 0],
              [1, 0, 0, 1, 0, 0], [0, 1, 0, 1, 0, 0]],
           info_ch_names = [''Fz'', ''Cz'', ''Pz'', ''Oz'', ''T7''],
           info_sfreq = 200 \<rparr>,
       ep_data =
         [[[1, 1, 1, 1], [2, 2, 2, 2], [3, 3, 3, 3], [4, 4, 4, 4], [0, 10, 0, 10]],
          [[0, 5, 0, 5], [1, 1, 1, 1], [2, 2, 2, 2], [3, 3, 3, 3], [4, 4, 4, 4]]] \<rparr>"

text \<open>A measurement info of three channels, each sensor at its reference position.\<close>

definition example_coincident_info :: info where
  "example_coincident_info =
     \<lparr> info_chs = [\<lparr>ch_loc = [1, 0, 0, 1, 0, 0]\<rparr>, \<lparr>ch_loc = [0, 1, 0, 0, 1, 0]\<rparr>,
                    \<lparr>ch_loc = [0, 0, 1, 0, 0, 1]\<rparr>],
       info_ch_names = [''Fz'', ''Cz'', ''Pz''],
       info_sfreq = 200 \<rparr>"

subsection \<open>Shapes of the masks\<close>

text \<open>An array of shape \<open>(n, p)\<close>, and what holds of the dictionary of masks throughout
  \<^verbatim>\<open>_find_bad_channels_in_epochs\<close>: its keys are the keys of the metric table, every mask
  has the shape (epochs, picks), and the mask of a metric that is not run is all
  \<open>False\<close>.\<close>

definition has_shape :: "nat \<Rightarrow> nat \<Rightarrow> 'a list list \<Rightarrow> bool" where
  "has_shape n p m \<longleftrightarrow> length m = n \<and> list_all (\<lambda>row. length row = p) m"

definition bads_inv ::
  "string list \<Rightarrow> string list \<Rightarrow> nat \<Rightarrow> nat \<Rightarrow> (string \<times> bool list list) list \<Rightarrow> bool" where
  "bads_inv keys use n p bads \<longleftrightarrow>
     map fst bads = keys
     \<and> list_all (\<lambda>(k, m). has_shape n p m
                   \<and> (k \<notin> set use \<longrightarrow> m = replicate n (replicate p False))) bads"

section \<open>Properties\<close>

subsection \<open>Segment length\<close>

lemma floor_log2_bounds:
  assumes "0 < x"
  shows "2 powi \<lfloor>log 2 x\<rfloor> \<le> x" and "x < 2 powi (\<lfloor>log 2 x\<rfloor> + 1)"
proof -
  have "\<lfloor>log 2 x\<rfloor> = \<lfloor>log 2 x\<rfloor>" ..
  then have b: "2 powr real_of_int \<lfloor>log 2 x\<rfloor> \<le> x \<and> x < 2 powr real_of_int (\<lfloor>log 2 x\<rfloor> + 1)"
    using assms by (subst (asm) floor_log_eq_powr_iff) simp_all
  have e: "(2::real) powr real_of_int k = 2 powi k" for k
    by (rule powr_real_of_int') simp_all
  show "2 powi \<lfloor>log 2 x\<rfloor> \<le> x"
    using b unfolding e by blast
  show "x < 2 powi (\<lfloor>log 2 x\<rfloor> + 1)"
    using b unfolding e by blast
qed

lemma py_int_log2_succ:
  assumes "1 / 2 \<le> x"
  shows "py_int (log 2 x + 1) = \<lfloor>log 2 x\<rfloor> + 1"
proof -
  have "log 2 (1 / 2) \<le> log 2 x"
    using assms by (subst log_le_cancel_iff) simp_all
  moreover have "log 2 (1 / 2) = - 1"
    by (simp add: log_divide)
  ultimately have "0 \<le> log 2 x + 1" by simp
  then show ?thesis by (simp add: py_int_def)
qed

lemma floor_log2_1000: "\<lfloor>log 2 (1000::real)\<rfloor> = 9"
  by (simp add: floor_log_eq_powr_iff)

text \<open>
  C1 (as stated, refuted). At 100 Hz with 2000 samples the code's segment length is 1024,
  which exceeds the 10-second window of 1000 samples; the largest power of two not
  exceeding that window is 512.
\<close>

theorem C1_counterexample:
  "efficient_welch_nperseg 2000 100 = Inr 1024 \<and> (10 * 100 < (1024::real))
   \<and> nperseg_spec 2000 100 = 512
   \<and> efficient_welch_nperseg 2000 100 \<noteq> Inr (nperseg_spec 2000 100)"
proof -
  have a: "1 / 2 \<le> (1000::real)" by simp
  have "py_int (log 2 1000 + 1) = 10"
    using py_int_log2_succ [OF a] floor_log2_1000 by simp
  then have c: "efficient_welch_nperseg 2000 100 = Inr 1024"
    by (simp add: efficient_welch_nperseg_def)
  have s: "nperseg_spec 2000 100 = 512"
    by (simp add: nperseg_spec_def floor_log2_1000)
  show ?thesis using c s by simp
qed

text \<open>
  C1 (amended). For a sample rate of at least 0.05 Hz, the segment length is the
  smallest power of two strictly greater than the 10-second window of \<open>10 * sfreq\<close>
  samples (the next power of two, \<open>2 ^ k\<close> with \<open>2 ^ (k - 1) \<le> 10 * sfreq < 2 ^ k\<close>),
  clamped to the number of samples.
\<close>

theorem C1_nperseg_next_power_of_two:
  assumes "1 / 20 \<le> sfreq"
  shows "efficient_welch_nperseg n_samples sfreq
           = Inr (min (real n_samples) (2 powi (\<lfloor>log 2 (10 * sfreq)\<rfloor> + 1)))
         \<and> 2 powi \<lfloor>log 2 (10 * sfreq)\<rfloor> \<le> 10 * sfreq
         \<and> 10 * sfreq < 2 powi (\<lfloor>log 2 (10 * sfreq)\<rfloor> + 1)"
proof -
  have h: "1 / 2 \<le> 10 * sfreq" using assms by simp
  then have p: "0 < 10 * sfreq" by simp
  have "efficient_welch_nperseg n_samples sfreq
          = Inr (min (real n_samples) (2 powi (\<lfloor>log 2 (10 * sfreq)\<rfloor> + 1)))"
    using p py_int_log2_succ [OF h] by (simp add: efficient_welch_nperseg_def)
  then show ?thesis
    using floor_log2_bounds [OF p] by simp
qed

theorem C1_nperseg_witness:
  "(1 / 20 \<le> (100::real))
   \<and> efficient_welch_nperseg 2000 100 = Inr 1024
   \<and> efficient_welch_nperseg 500 100 = Inr 500"
proof -
  have a: "1 / 20 \<le> (100::real)" by simp
  have f: "\<lfloor>log 2 (10 * (100::real))\<rfloor> = 9" using floor_log2_1000 by simp
  show ?thesis
    using C1_nperseg_next_power_of_two [OF a, of 2000]
      C1_nperseg_next_power_of_two [OF a, of 500] f
    by simp
qed

subsection \<open>The Hurst exponent\<close>

lemma np_diff_Cons2: "np_diff (x # y # ys) = (y - x) # np_diff (y # ys)"
  by (simp add: np_diff_def)

lemma cumsum_from_diff: "cumsum_from a (np_diff (x # xs)) = map (\<lambda>v. a + v - x) xs"
proof (induction xs arbitrary: a x)
  case Nil
  then show ?case by (simp add: np_diff_def)
next
  case (Cons y ys)
  show ?case
    by (simp add: np_diff_Cons2 Cons.IH)
qed

lemma cumsum_diff: "np_cumsum (np_diff xs) = map (\<lambda>v. v - hd xs) (tl xs)"
proof (cases xs)
  case Nil
  then show ?thesis by (simp add: np_cumsum_def np_diff_def)
next
  case (Cons x xs')
  then show ?thesis by (simp add: np_cumsum_def cumsum_from_diff)
qed

lemma cumsum_diff_nth:
  "Suc i < length xs \<Longrightarrow> np_cumsum (np_diff xs) ! i = xs ! Suc i - xs ! 0"
  by (cases xs) (simp_all add: cumsum_diff)

lemma length_cumsum_diff: "length (np_cumsum (np_diff xs)) = length xs - 1"
  by (simp add: cumsum_diff)

lemma length_lfilter: "length (lfilter b y) = length y"
  by (simp add: lfilter_def)

lemma lfilter_nth:
  "n < length y \<Longrightarrow>
   lfilter b y ! n = (\<Sum>k\<leftarrow>[0..<length b]. if k \<le> n then b ! k * y ! (n - k) else 0)"
  by (simp add: lfilter_def cong: if_cong)

lemma upt_0_3: "[0..<3] = [0, 1, 2]"
  by (simp add: upt_rec numeral_3_eq_3)

lemma upt_0_5: "[0..<5] = [0, 1, 2, 3, 4]"
  by code_simp

lemma lfilter3_nth:
  assumes "m + 2 < length y"
  shows "lfilter [b0, b1, b2] y ! (m + 2) = b0 * y ! (m + 2) + b1 * y ! (m + 1) + b2 * y ! m"
proof -
  have "lfilter [b0, b1, b2] y ! (m + 2)
      = (\<Sum>k\<leftarrow>[0, 1, 2]. if k \<le> m + 2 then [b0, b1, b2] ! k * y ! (m + 2 - k) else 0)"
    using lfilter_nth [OF assms, of "[b0, b1, b2]"] by (simp add: upt_0_3)
  then show ?thesis by simp
qed

lemma lfilter5_nth:
  assumes "m + 4 < length y"
  shows "lfilter [b0, b1, b2, b3, b4] y ! (m + 4)
       = b0 * y ! (m + 4) + b1 * y ! (m + 3) + b2 * y ! (m + 2) + b3 * y ! (m + 1) + b4 * y ! m"
proof -
  have "lfilter [b0, b1, b2, b3, b4] y ! (m + 4)
      = (\<Sum>k\<leftarrow>[0, 1, 2, 3, 4]. if k \<le> m + 4 then [b0, b1, b2, b3, b4] ! k * y ! (m + 4 - k) else 0)"
    using lfilter_nth [OF assms, of "[b0, b1, b2, b3, b4]"] by (simp add: upt_0_5)
  then show ?thesis by (simp add: numeral_3_eq_3 eval_nat_numeral)
qed

lemma narrow:
  "butlast (drop 2 (lfilter [1, - 2, 1] (np_cumsum (np_diff ch))))
     = map (\<lambda>i. ch ! (i + 2) - 2 * ch ! (i + 1) + ch ! i) [1..<length ch - 3]"
proof (rule nth_equalityI)
  show "length (butlast (drop 2 (lfilter [1, - 2, 1] (np_cumsum (np_diff ch)))))
          = length (map (\<lambda>i. ch ! (i + 2) - 2 * ch ! (i + 1) + ch ! i) [1..<length ch - 3])"
    by (simp add: length_lfilter length_cumsum_diff)
next
  fix j
  let ?y = "np_cumsum (np_diff ch)"
  assume "j < length (butlast (drop 2 (lfilter [1, - 2, 1] ?y)))"
  then have j: "j + 4 < length ch"
    by (simp add: length_lfilter length_cumsum_diff)
  then have ly: "j + 2 < length ?y"
    by (simp add: length_cumsum_diff)
  have y2: "?y ! (j + 2) = ch ! (j + 3) - ch ! 0"
    using cumsum_diff_nth [of "j + 2" ch] j by (simp add: numeral_3_eq_3)
  have y1: "?y ! (j + 1) = ch ! (j + 2) - ch ! 0"
    using cumsum_diff_nth [of "j + 1" ch] j by simp
  have y0: "?y ! j = ch ! (j + 1) - ch ! 0"
    using cumsum_diff_nth [of j ch] j by simp
  have f: "lfilter [1, - 2, 1] ?y ! (j + 2) = ch ! (j + 3) - 2 * ch ! (j + 2) + ch ! (j + 1)"
    unfolding lfilter3_nth [OF ly] y2 y1 y0 by (simp add: algebra_simps)
  have ly': "j + 3 < length ?y"
    using j by (simp add: length_cumsum_diff)
  have l: "butlast (drop 2 (lfilter [1, - 2, 1] ?y)) ! j = lfilter [1, - 2, 1] ?y ! (j + 2)"
    using ly' by (simp add: nth_butlast length_lfilter add.commute)
  have "[1..<length ch - 3] ! j = 1 + j"
    using j by (intro nth_upt) linarith
  then have u: "[1..<length ch - 3] ! j = j + 1" by simp
  have r: "map (\<lambda>i. ch ! (i + 2) - 2 * ch ! (i + 1) + ch ! i) [1..<length ch - 3] ! j
         = ch ! (j + 3) - 2 * ch ! (j + 2) + ch ! (j + 1)"
  proof -
    have jl: "j < length [1..<length ch - 3]" using j by simp
    have i: "j + 1 + 2 = j + 3" "j + 1 + 1 = j + 2" by simp_all
    show ?thesis unfolding nth_map [OF jl] u i ..
  qed
  show "butlast (drop 2 (lfilter [1, - 2, 1] ?y)) ! j
       = map (\<lambda>i. ch ! (i + 2) - 2 * ch ! (i + 1) + ch ! i) [1..<length ch - 3] ! j"
    unfolding l f r ..
qed

lemma wide:
  "butlast (drop 4 (lfilter [1, 0, - 2, 0, 1] (np_cumsum (np_diff ch))))
     = map (\<lambda>i. ch ! (i + 4) - 2 * ch ! (i + 2) + ch ! i) [1..<length ch - 5]"
proof (rule nth_equalityI)
  show "length (butlast (drop 4 (lfilter [1, 0, - 2, 0, 1] (np_cumsum (np_diff ch)))))
          = length (map (\<lambda>i. ch ! (i + 4) - 2 * ch ! (i + 2) + ch ! i) [1..<length ch - 5])"
    by (simp add: length_lfilter length_cumsum_diff)
next
  fix j
  let ?y = "np_cumsum (np_diff ch)"
  assume "j < length (butlast (drop 4 (lfilter [1, 0, - 2, 0, 1] ?y)))"
  then have j: "j + 6 < length ch"
    by (simp add: length_lfilter length_cumsum_diff)
  then have ly: "j + 4 < length ?y" and ly': "j + 5 < length ?y"
    by (simp_all add: length_cumsum_diff)
  have y4: "?y ! (j + 4) = ch ! (j + 5) - ch ! 0"
    using cumsum_diff_nth [of "j + 4" ch] j by (simp add: eval_nat_numeral)
  have y2: "?y ! (j + 2) = ch ! (j + 3) - ch ! 0"
    using cumsum_diff_nth [of "j + 2" ch] j by (simp add: eval_nat_numeral)
  have y0: "?y ! j = ch ! (j + 1) - ch ! 0"
    using cumsum_diff_nth [of j ch] j by simp
  have f: "lfilter [1, 0, - 2, 0, 1] ?y ! (j + 4) = ch ! (j + 5) - 2 * ch ! (j + 3) + ch ! (j + 1)"
    unfolding lfilter5_nth [OF ly] y4 y2 y0 by (simp add: algebra_simps)
  have l: "butlast (drop 4 (lfilter [1, 0, - 2, 0, 1] ?y)) ! j = lfilter [1, 0, - 2, 0, 1] ?y ! (j + 4)"
    using ly' by (simp add: nth_butlast length_lfilter add.commute)
  have "[1..<length ch - 5] ! j = 1 + j"
    using j by (intro nth_upt) linarith
  then have u: "[1..<length ch - 5] ! j = j + 1" by simp
  have r: "map (\<lambda>i. ch ! (i + 4) - 2 * ch ! (i + 2) + ch ! i) [1..<length ch - 5] ! j
         = ch ! (j + 5) - 2 * ch ! (j + 3) + ch ! (j + 1)"
  proof -
    have jl: "j < length [1..<length ch - 5]" using j by simp
    have i: "j + 1 + 4 = j + 5" "j + 1 + 2 = j + 3" by simp_all
    show ?thesis unfolding nth_map [OF jl] u i ..
  qed
  show "butlast (drop 4 (lfilter [1, 0, - 2, 0, 1] ?y)) ! j
       = map (\<lambda>i. ch ! (i + 4) - 2 * ch ! (i + 2) + ch ! i) [1..<length ch - 5] ! j"
    unfolding l f r ..
qed

lemma hurst_channel_unfold:
  "hurst_channel ch =
     1 / 2 * log 2
       (np_mean (map (\<lambda>v. v\<^sup>2) (butlast (drop 4 (lfilter [1, 0, - 2, 0, 1] (np_cumsum (np_diff ch))))))
        / np_mean (map (\<lambda>v. v\<^sup>2) (butlast (drop 2 (lfilter [1, - 2, 1] (np_cumsum (np_diff ch)))))))"
proof -
  have l: "length [1::real, - 2, 1] - 1 = 2" "length [1::real, 0, - 2, 0, 1] - 1 = 4"
    by simp_all
  show ?thesis
    unfolding hurst_channel_def Let_def l by simp
qed

text \<open>
  C9 (amended). Per channel, the hurst metric is half the base-2 logarithm of the ratio of
  the mean-squared outputs of the FIR filters \<open>[1, 0, -2, 0, 1]\<close> (numerator) and
  \<open>[1, -2, 1]\<close> (denominator) applied to the cumulative sum of the first differences of
  the samples, where of each filter output the first \<open>len(b) - 1\<close> samples and also the
  last sample are dropped. In terms of the samples, the two trimmed outputs are the
  second differences \<open>x[i + 4] - 2 x[i + 2] + x[i]\<close> for \<open>1 \<le> i < n - 5\<close> and
  \<open>x[i + 2] - 2 x[i + 1] + x[i]\<close> for \<open>1 \<le> i < n - 3\<close>.
\<close>

theorem C9_hurst:
  "hurst x =
     map (\<lambda>ch. 1 / 2 * log 2
           (np_mean (map (\<lambda>v. v\<^sup>2)
              (butlast (drop 4 (lfilter [1, 0, - 2, 0, 1] (np_cumsum (np_diff ch))))))
            / np_mean (map (\<lambda>v. v\<^sup>2)
              (butlast (drop 2 (lfilter [1, - 2, 1] (np_cumsum (np_diff ch)))))))) x
   \<and> hurst x =
     map (\<lambda>ch. 1 / 2 * log 2
           (np_mean (map (\<lambda>i. (ch ! (i + 4) - 2 * ch ! (i + 2) + ch ! i)\<^sup>2) [1..<length ch - 5])
            / np_mean (map (\<lambda>i. (ch ! (i + 2) - 2 * ch ! (i + 1) + ch ! i)\<^sup>2) [1..<length ch - 3]))) x"
proof -
  have a: "hurst x =
     map (\<lambda>ch. 1 / 2 * log 2
           (np_mean (map (\<lambda>v. v\<^sup>2)
              (butlast (drop 4 (lfilter [1, 0, - 2, 0, 1] (np_cumsum (np_diff ch))))))
            / np_mean (map (\<lambda>v. v\<^sup>2)
              (butlast (drop 2 (lfilter [1, - 2, 1] (np_cumsum (np_diff ch)))))))) x"
    unfolding hurst_def hurst_channel_unfold ..
  have b: "map (\<lambda>v. v\<^sup>2) (map f is) = map (\<lambda>i. (f i)\<^sup>2) is" for f :: "nat \<Rightarrow> real" and "is"
    by simp
  show ?thesis
    using a unfolding narrow wide b by simp
qed

lemma log2_16: "log 2 (16::real) = 4"
proof -
  have "log 2 ((2::real) ^ 4) = 4" by (subst log_pow_cancel) simp_all
  then show ?thesis by simp
qed

theorem C9_hurst_witness: "hurst [[0, 1, 4, 9, 16, 25, 36, 50]] = [2]"
proof -
  have "hurst [[0, 1, 4, 9, 16, 25, 36, 50]] = [1 / 2 * log 2 (64 / 4)]"
    using C9_hurst [of "[[0, 1, 4, 9, 16, 25, 36, 50]]", THEN conjunct2]
    by (simp add: np_mean_def)
  then show ?thesis by (simp add: log2_16)
qed

lemma spec_lists:
  "drop 2 (lfilter [1, - 2, 1] (np_cumsum (np_diff [0, 1, 4, 9, 16, 25, 36, 50]))) = [2, 2, 2, 2, 3]"
  "drop 4 (lfilter [1, 0, - 2, 0, 1] (np_cumsum (np_diff [0, 1, 4, 9, 16, 25, 36, 50]))) = [8, 8, 9]"
  "butlast (drop 2 (lfilter [1, - 2, 1] (np_cumsum (np_diff [0, 1, 4, 9, 16, 25, 36, 50])))) = [2, 2, 2, 2]"
  "butlast (drop 4 (lfilter [1, 0, - 2, 0, 1] (np_cumsum (np_diff [0, 1, 4, 9, 16, 25, 36, 50])))) = [8, 8]"
  by code_simp+

text \<open>
  C9 (as stated, refuted). On the samples \<open>0, 1, 4, 9, 16, 25, 36, 50\<close> the code returns 2:
  it drops the last sample of each filter output as well as the initial ones. Dropping
  the initial samples only gives \<open>1/2 * log2 (209 / 15)\<close>, which is smaller.
\<close>

theorem C9_counterexample:
  "hurst_channel [0, 1, 4, 9, 16, 25, 36, 50] = 2
   \<and> hurst_spec_channel [0, 1, 4, 9, 16, 25, 36, 50] = 1 / 2 * log 2 (209 / 15)
   \<and> hurst_spec_channel [0, 1, 4, 9, 16, 25, 36, 50] < hurst_channel [0, 1, 4, 9, 16, 25, 36, 50]"
proof -
  have c: "hurst_channel [0, 1, 4, 9, 16, 25, 36, 50] = 2"
    unfolding hurst_channel_unfold spec_lists by (simp add: np_mean_def log2_16)
  have s: "hurst_spec_channel [0, 1, 4, 9, 16, 25, 36, 50] = 1 / 2 * log 2 (209 / 15)"
    unfolding hurst_spec_channel_def Let_def spec_lists by (simp add: np_mean_def)
  have "log 2 (209 / 15 :: real) < log 2 16"
    by (subst log_less_cancel_iff) simp_all
  then have "1 / 2 * log 2 (209 / 15 :: real) < 2" by (simp add: log2_16)
  then show ?thesis using c s by simp
qed

subsection \<open>Line noise\<close>














subsection \<open>Unsupported methods\<close>

text \<open>
  C7. For every method other than \<open>'faster'\<close>, each of \<open>find_bad_channels\<close>,
  \<open>find_bad_epochs\<close> and \<open>find_bad_channels_in_epochs\<close> fails with an error and returns no
  result: the error of \<open>_handle_default\<close> if that fails on the key of the method, and
  NotImplementedError otherwise. The error does not depend on the data of the epochs:
  no metric is computed.
\<close>

theorem C7_unsupported_method:
  assumes "method \<noteq> ''faster''"
  shows "find_bad_channels lib epochs picks method method_params return_by_metric
           = (case handle_default lib (''bad_channels_'' @ method) method_params of
                Inl e \<Rightarrow> Inl e | Inr params \<Rightarrow> Inl NotImplementedError)
       \<and> find_bad_epochs lib epochs picks return_by_metric method method_params
           = (case handle_default lib (''bad_epochs_'' @ method) method_params of
                Inl e \<Rightarrow> Inl e | Inr params \<Rightarrow> Inl NotImplementedError)
       \<and> find_bad_channels_in_epochs lib epochs picks method method_params return_by_metric
           = (case handle_default lib (''bad_channels_in_epochs_'' @ method) method_params of
                Inl e \<Rightarrow> Inl e | Inr params \<Rightarrow> Inl NotImplementedError)
       \<and> isl (find_bad_channels lib epochs picks method method_params return_by_metric)
       \<and> isl (find_bad_epochs lib epochs picks return_by_metric method method_params)
       \<and> isl (find_bad_channels_in_epochs lib epochs picks method method_params return_by_metric)"
  using assms
  by (simp add: find_bad_channels_def find_bad_epochs_def find_bad_channels_in_epochs_def
      ebind_def split: sum.splits)

theorem C7_unsupported_method_witness:
  "''ransac'' \<noteq> ''faster''
   \<and> find_bad_channels example_lib example_epochs None ''ransac'' None False
        = Inl (KeyError ''bad_channels_ransac'')
   \<and> find_bad_epochs example_lib example_epochs None False ''ransac'' None
        = Inl (KeyError ''bad_epochs_ransac'')
   \<and> find_bad_channels_in_epochs (example_lib\<lparr>handle_default := \<lambda>key mp. Inr \<lparr>p_use_metrics = None, p_thresh = 3, p_max_iter = 1, p_eeg_ref_corr = False\<rparr>\<rparr>)
        example_epochs None ''ransac'' None True
        = Inl NotImplementedError"
proof -
  have m: "''ransac'' \<noteq> ''faster''" by simp
  show ?thesis
    using C7_unsupported_method [OF m, of example_lib example_epochs None None False]
      C7_unsupported_method [OF m, of "example_lib\<lparr>handle_default := \<lambda>key mp. Inr \<lparr>p_use_metrics = None, p_thresh = 3, p_max_iter = 1, p_eeg_ref_corr = False\<rparr>\<rparr>"
        example_epochs None None True]
    by (simp add: example_lib_def)
qed

subsection \<open>The outlier selector\<close>

lemma select_loop_keeps: "set removed \<subseteq> set (select_loop scores thresh n working removed)"
proof (induction n arbitrary: working removed)
  case 0
  show ?case by simp
next
  case (Suc n)
  show ?case
  proof (cases "filter (\<lambda>i. i \<in> set working) (flag_outliers scores thresh working) = []")
    case True
    then show ?thesis by simp
  next
    case False
    then show ?thesis
      using Suc.IH [of "removed @ filter (\<lambda>i. i \<in> set working) (flag_outliers scores thresh working)"]
      by (simp add: Let_def)
  qed
qed

lemma select_loop_Suc:
  "select_loop scores thresh (Suc n) working removed =
     (if filter (\<lambda>i. i \<in> set working) (flag_outliers scores thresh working) = [] then removed
      else select_loop scores thresh n
             (filter (\<lambda>i. i \<notin> set (filter (\<lambda>i. i \<in> set working)
                (flag_outliers scores thresh working))) working)
             (removed @ filter (\<lambda>i. i \<in> set working) (flag_outliers scores thresh working)))"
  by (simp add: Let_def)

lemma select_loop_mono_Suc:
  "set (select_loop scores thresh n working removed)
     \<subseteq> set (select_loop scores thresh (Suc n) working removed)"
proof (induction n arbitrary: working removed)
  case 0
  show ?case
    using select_loop_keeps [of removed scores thresh "Suc 0" working] by simp
next
  case (Suc n)
  define new where "new = filter (\<lambda>i. i \<in> set working) (flag_outliers scores thresh working)"
  show ?case
  proof (cases "new = []")
    case True
    then show ?thesis
      unfolding select_loop_Suc [of scores thresh "Suc n"] select_loop_Suc [of scores thresh n]
        new_def [symmetric] by simp
  next
    case False
    then show ?thesis
      unfolding select_loop_Suc [of scores thresh "Suc n" working]
        select_loop_Suc [of scores thresh n working] new_def [symmetric]
      using Suc.IH [of "filter (\<lambda>i. i \<notin> set new) working" "removed @ new"]
      by (simp del: select_loop.simps)
  qed
qed

lemma select_loop_mono:
  "n \<le> n' \<Longrightarrow>
   set (select_loop scores thresh n working removed)
     \<subseteq> set (select_loop scores thresh n' working removed)"
  by (rule lift_Suc_mono_le [of "\<lambda>n. set (select_loop scores thresh n working removed)"])
     (simp_all add: select_loop_mono_Suc del: select_loop.simps)

lemma np_var_nonneg: "0 \<le> np_var xs"
  unfolding np_var_def np_mean_def
  by (intro divide_nonneg_nonneg sum_list_nonneg) auto

lemma flag_outliers_code:
  assumes "0 \<le> thresh"
  shows "flag_outliers scores thresh working =
     (let sub = map ((!) scores) working;
          m = np_mean sub;
          v = np_var sub
      in if v = 0 then []
         else filter (\<lambda>i. thresh\<^sup>2 * v < (scores ! i - m)\<^sup>2) [0..<length scores])"
proof -
  have "thresh * sqrt v < \<bar>d\<bar> \<longleftrightarrow> thresh\<^sup>2 * v < d\<^sup>2" if "0 \<le> v" for v d :: real
  proof -
    have "0 \<le> thresh * sqrt v" using assms that by simp
    then have "thresh * sqrt v < \<bar>d\<bar> \<longleftrightarrow> (thresh * sqrt v)\<^sup>2 < \<bar>d\<bar>\<^sup>2"
      by (metis abs_ge_zero abs_of_nonneg abs_square_less_1 power2_less_imp_less
          power_strict_mono zero_less_numeral not_le not_less_iff_gr_or_eq)
    also have "\<dots> \<longleftrightarrow> thresh\<^sup>2 * v < d\<^sup>2"
      using that by (simp add: power_mult_distrib)
    finally show ?thesis .
  qed
  then show ?thesis
    unfolding flag_outliers_def np_std_def Let_def
    by (simp add: np_var_nonneg)
qed

text \<open>
  C4. On the selector as the specification describes it (a working subset that starts
  with all indices; every iteration flags the indices that deviate from the mean of the
  working subset by more than \<open>thresh\<close> of its standard deviations, removes the new ones
  from the working subset, and the loop stops when an iteration flags nothing new; the
  result is the set of all removed indices): raising \<open>max_iter\<close> never loses an index and
  never makes the returned set smaller.
\<close>

theorem C4_max_iter_monotone:
  assumes "k \<le> k'"
  shows "select_outliers scores thresh k \<subseteq> select_outliers scores thresh k'
       \<and> card (select_outliers scores thresh k) \<le> card (select_outliers scores thresh k')"
proof -
  have "nat k \<le> nat k'" using assms by simp
  then have s: "select_outliers scores thresh k \<subseteq> select_outliers scores thresh k'"
    unfolding select_outliers_def by (rule select_loop_mono)
  have "finite (select_outliers scores thresh k')"
    unfolding select_outliers_def by simp
  then have "card (select_outliers scores thresh k) \<le> card (select_outliers scores thresh k')"
    using s by (rule card_mono)
  then show ?thesis using s by simp
qed

lemma ex1: "select_loop [0, 0, 0, 0, 1, 10] 1 (Suc 0) [0..<6] [] = [5]"
  by (simp add: flag_outliers_code Let_def np_mean_def np_var_def upt_rec power2_eq_square)

lemma ex2: "select_loop [0, 0, 0, 0, 1, 10] 1 (Suc (Suc 0)) [0..<6] [] = [5, 4]"
  by (simp add: flag_outliers_code Let_def np_mean_def np_var_def upt_rec power2_eq_square)

theorem C4_max_iter_monotone_witness:
  "(1::int) \<le> 2
   \<and> select_outliers [0, 0, 0, 0, 1, 10] 1 1 = {5}
   \<and> select_outliers [0, 0, 0, 0, 1, 10] 1 2 = {4, 5}
   \<and> select_outliers [0, 0, 0, 0, 1, 10] 1 1 \<subseteq> select_outliers [0, 0, 0, 0, 1, 10] 1 2
   \<and> card (select_outliers [0, 0, 0, 0, 1, 10] 1 1) \<le> card (select_outliers [0, 0, 0, 0, 1, 10] 1 2)"
proof -
  have k: "(1::int) \<le> 2" by simp
  have l: "length [0, 0, 0, 0, 1, 10::real] = 6" by simp
  have n: "nat 1 = Suc 0" "nat 2 = Suc (Suc 0)" by simp_all
  have a: "select_outliers [0, 0, 0, 0, 1, 10] 1 1 = {5}"
    unfolding select_outliers_def l n ex1 by simp
  have b: "select_outliers [0, 0, 0, 0, 1, 10] 1 2 = {4, 5}"
    unfolding select_outliers_def l n ex2 by auto
  show ?thesis
    using C4_max_iter_monotone [OF k, of "[0, 0, 0, 0, 1, 10]" 1] a b by simp
qed

subsection \<open>Correction for the distance to the reference\<close>














lemma distance_correction_missing:
  assumes "list_all (\<lambda>ch. ch < length (info_chs info)) picks"
    and "\<exists>ch\<in>set picks. all_zero (sensor_pos info ch) \<or> all_zero (reference_pos info ch)"
  shows "distance_correction info picks x =
     (if \<exists>ch\<in>set picks. all_zero (sensor_pos info ch) then Inl MissingPositionError
      else Inl MissingReferenceError)"
proof -
  have "picks \<noteq> []" using assms(2) by auto
  then show ?thesis
    using assms by (auto simp: distance_correction_def list_ex_iff)
qed

lemma isl_ebind: "isl r \<Longrightarrow> isl (ebind r f)"
  by (cases r) (simp_all add: ebind_def)

lemma isl_ebind_all: "(\<And>v. isl (f v)) \<Longrightarrow> isl (ebind r f)"
  by (cases r) (simp_all add: ebind_def)

lemma isl_efold_first: "isl (f x s) \<Longrightarrow> isl (efold f (x # xs) s)"
  by (simp add: isl_ebind)

text \<open>
  C2. When every pick is a channel of the measurement info and some selected channel has
  an all-zero sensor position or an all-zero reference position,
  \<open>_distance_correction\<close> raises the error that names the missing data (the sensor
  position first, the reference position otherwise), whatever the scores are, before
  any angle or fit is computed: no corrected score vector is returned. The detection of
  bad channels with \<open>eeg_ref_corr\<close> then fails as soon as there is a channel group and a
  metric to run.
\<close>

theorem C2_missing_geometry:
  assumes "list_all (\<lambda>ch. ch < length (info_chs info)) picks"
    and "\<exists>ch\<in>set picks. all_zero (sensor_pos info ch) \<or> all_zero (reference_pos info ch)"
  shows "distance_correction info picks x =
           (if \<exists>ch\<in>set picks. all_zero (sensor_pos info ch) then Inl MissingPositionError
            else Inl MissingReferenceError)
       \<and> (\<forall>epochs. ep_info epochs = info
             \<and> picks_by_type lib (pick_info lib info picks) \<noteq> []
             \<and> metrics_to_use (bad_channel_metrics lib (info_sfreq info)) use_metrics \<noteq> []
           \<longrightarrow> isl (faster_find_bad_channels lib epochs picks use_metrics thresh max_iter True))"
proof -
  have d: "distance_correction info picks y =
           (if \<exists>ch\<in>set picks. all_zero (sensor_pos info ch) then Inl MissingPositionError
            else Inl MissingReferenceError)" for y
    using assms by (rule distance_correction_missing)
  then have e: "isl (distance_correction info picks y)" for y
    by simp
  have pne: "picks \<noteq> []" using assms(2) by auto
  have "isl (faster_find_bad_channels lib epochs picks use_metrics thresh max_iter True)"
    if i: "ep_info epochs = info"
      and g: "picks_by_type lib (pick_info lib info picks) \<noteq> []"
      and u: "metrics_to_use (bad_channel_metrics lib (info_sfreq info)) use_metrics \<noteq> []"
    for epochs
  proof -
    obtain ch_type chs groups where gs: "picks_by_type lib (pick_info lib info picks) = (ch_type, chs) # groups"
      using g by (cases "picks_by_type lib (pick_info lib info picks)") auto
    obtain metric rest where us: "metrics_to_use (bad_channel_metrics lib (info_sfreq info)) use_metrics = metric # rest"
      using u by (cases "metrics_to_use (bad_channel_metrics lib (info_sfreq info)) use_metrics") auto
    have "isl (efold (\<lambda>metric bads.
                   ebind (lookup_metric (bad_channel_metrics lib (info_sfreq info)) metric) (\<lambda>f.
                   ebind (select data chs) (\<lambda>sub.
                   ebind (f sub) (\<lambda>scores.
                   ebind (distance_correction info picks scores) (\<lambda>scores.
                   ebind (emap (\<lambda>i. ebind (nth_err chs i) (\<lambda>c. ebind (nth_err picks c)
                                  (nth_err (info_ch_names info))))
                            (find_outliers lib scores thresh max_iter)) (\<lambda>bad_channels.
                   Inr (dict_append bads metric bad_channels))))))) (metric # rest) [])"
      for data
      by (intro isl_efold_first isl_ebind_all isl_ebind e)
    note inner = this
    show ?thesis
      unfolding faster_find_bad_channels_def Let_def i gs us
      apply (rule isl_ebind_all)
      apply (simp only: pne if_False)
      apply (rule isl_ebind)
      apply (rule isl_efold_first)
      apply (simp only: prod.case if_True)
      apply (rule inner)
      done
  qed
  then show ?thesis using d by blast
qed

theorem C2_missing_geometry_witness:
  "list_all (\<lambda>ch. ch < length (info_chs (ep_info example_epochs\<lparr>info_chs :=
       map (\<lambda>l. \<lparr>ch_loc = l\<rparr>) [[1, 0, 0, 1, 0, 0], [0, 1, 0, 0, 0, 0]]\<rparr>))) [0, 1]
   \<and> all_zero (reference_pos (ep_info example_epochs\<lparr>info_chs :=
       map (\<lambda>l. \<lparr>ch_loc = l\<rparr>) [[1, 0, 0, 1, 0, 0], [0, 1, 0, 0, 0, 0]]\<rparr>) 1)
   \<and> distance_correction (ep_info example_epochs\<lparr>info_chs :=
       map (\<lambda>l. \<lparr>ch_loc = l\<rparr>) [[1, 0, 0, 1, 0, 0], [0, 1, 0, 0, 0, 0]]\<rparr>) [0, 1] [3, 4]
     = Inl MissingReferenceError
   \<and> distance_correction (ep_info example_epochs\<lparr>info_chs :=
       map (\<lambda>l. \<lparr>ch_loc = l\<rparr>) [[0, 0, 0, 1, 0, 0], [0, 1, 0, 0, 0, 0]]\<rparr>) [0, 1] [3, 4]
     = Inl MissingPositionError"
proof -
  let ?i = "ep_info example_epochs\<lparr>info_chs :=
       map (\<lambda>l. \<lparr>ch_loc = l\<rparr>) [[1, 0, 0, 1, 0, 0], [0, 1, 0, 0, 0, 0]]\<rparr>"
  let ?j = "ep_info example_epochs\<lparr>info_chs :=
       map (\<lambda>l. \<lparr>ch_loc = l\<rparr>) [[0, 0, 0, 1, 0, 0], [0, 1, 0, 0, 0, 0]]\<rparr>"
  have a: "list_all (\<lambda>ch. ch < length (info_chs ?i)) [0, 1]"
    and a': "list_all (\<lambda>ch. ch < length (info_chs ?j)) [0, 1]"
    by simp_all
  have z: "all_zero (reference_pos ?i 1)"
    by (simp add: all_zero_def reference_pos_def)
  have n: "\<not> all_zero (sensor_pos ?i 0)" "\<not> all_zero (sensor_pos ?i 1)"
    by (simp_all add: all_zero_def sensor_pos_def)
  have b: "\<exists>ch\<in>set [0, 1]. all_zero (sensor_pos ?i ch) \<or> all_zero (reference_pos ?i ch)"
    using z by simp
  have z': "all_zero (sensor_pos ?j 0)"
    by (simp add: all_zero_def sensor_pos_def)
  then have b': "\<exists>ch\<in>set [0, 1]. all_zero (sensor_pos ?j ch) \<or> all_zero (reference_pos ?j ch)"
    by simp
  have "distance_correction ?i [0, 1] [3, 4] = Inl MissingReferenceError"
    using C2_missing_geometry [OF a b, THEN conjunct1, of "[3, 4]"] n by simp
  moreover have "distance_correction ?j [0, 1] [3, 4] = Inl MissingPositionError"
    using C2_missing_geometry [OF a' b', THEN conjunct1, of "[3, 4]"] z' by simp
  ultimately show ?thesis using a z by simp
qed





theorem C3_counterexample:
  "distance_correction example_coincident_info [0, 1, 2] [1, 2, 3] = Inl LinAlgError
   \<and> sensor_pos example_coincident_info 0 = [1, 0, 0]
   \<and> reference_pos example_coincident_info 0 = [1, 0, 0]
   \<and> sensor_pos example_coincident_info 1 = [0, 1, 0]
   \<and> reference_pos example_coincident_info 1 = [0, 1, 0]
   \<and> sensor_pos example_coincident_info 2 = [0, 0, 1]
   \<and> reference_pos example_coincident_info 2 = [0, 0, 1]"
  by (simp add: distance_correction_def example_coincident_info_def all_zero_def
      sensor_pos_def reference_pos_def angular_distance_def normalized_def np_norm_def
      np_dot_def np_polyfit2_def ebind_def)

subsection \<open>Bad channels in epochs: the masks\<close>

lemma ebind_Inr: "ebind r f = Inr y \<longleftrightarrow> (\<exists>v. r = Inr v \<and> f v = Inr y)"
  by (cases r) (simp_all add: ebind_def)

lemma efold_invariant:
  assumes step: "\<And>x s s'. x \<in> set xs \<Longrightarrow> P s \<Longrightarrow> f x s = Inr s' \<Longrightarrow> P s'"
  shows "P s \<Longrightarrow> efold f xs s = Inr s' \<Longrightarrow> P s'"
  using step
proof (induction xs arbitrary: s)
  case Nil
  then show ?case by simp
next
  case (Cons x xs)
  from Cons.prems(2) obtain s1 where s1: "f x s = Inr s1" and r: "efold f xs s1 = Inr s'"
    by (auto simp: ebind_Inr)
  have p: "P s1" using Cons.prems(3) [of x s s1] Cons.prems(1) s1 by simp
  show ?case
  proof (rule Cons.IH [OF p r])
    fix y t t'
    assume "y \<in> set xs" "P t" "f y t = Inr t'"
    then show "P t'" using Cons.prems(3) [of y t t'] by simp
  qed
qed

lemma emap_length: "emap f xs = Inr ys \<Longrightarrow> length ys = length xs"
proof (induction xs arbitrary: ys)
  case Nil
  then show ?case by simp
next
  case (Cons x xs)
  then show ?case by (auto simp: ebind_Inr)
qed

lemma length_fold_update: "length (fold (\<lambda>c row. row[c := v]) cols row) = length row"
  by (induction cols arbitrary: row) simp_all

lemma has_shape_update:
  assumes "has_shape n p m" and "length r = p"
  shows "has_shape n p (m[i := r])"
  using assms unfolding has_shape_def list_all_iff
  by (auto dest: set_update_subset_insert [THEN subsetD])

lemma has_shape_nth: "has_shape n p m \<Longrightarrow> i < length m \<Longrightarrow> length (m ! i) = p"
  unfolding has_shape_def list_all_iff by simp

lemma mask_assign_inv:
  assumes "bads_inv keys use n p bads" and "metric \<in> set use"
    and "mask_assign bads metric i cols = Inr bads'"
  shows "bads_inv keys use n p bads'"
proof -
  from assms(3) obtain arr where
    b: "bads' = map (\<lambda>(k, m).
                 if k = metric then (k, m[i := fold (\<lambda>c row. row[c := True]) cols (m ! i)])
                 else (k, m)) bads"
    and i: "i < length arr" and a: "map_of bads metric = Some arr"
    unfolding mask_assign_def by (auto split: option.splits if_splits)
  have k: "map fst bads' = keys"
    using assms(1) unfolding b bads_inv_def by (auto simp: o_def case_prod_beta cong: map_cong)
  have "has_shape n p m' \<and> (k' \<notin> set use \<longrightarrow> m' = replicate n (replicate p False))"
    if "(k', m') \<in> set bads'" for k' m'
  proof -
    from that obtain m where m: "(k', m) \<in> set bads"
      and m': "m' = (if k' = metric then m[i := fold (\<lambda>c row. row[c := True]) cols (m ! i)] else m)"
      unfolding b by (auto split: if_splits)
    have s: "has_shape n p m" and z: "k' \<notin> set use \<longrightarrow> m = replicate n (replicate p False)"
      using assms(1) m unfolding bads_inv_def list_all_iff by auto
    show ?thesis
    proof (cases "k' = metric")
      case True
      have "length m = n" using s by (simp add: has_shape_def)
      show ?thesis
      proof (cases "i < length m")
        case True
        then have "length (fold (\<lambda>c row. row[c := True]) cols (m ! i)) = p"
          using s by (simp add: length_fold_update has_shape_nth)
        then show ?thesis
          using s \<open>k' = metric\<close> assms(2) m' by (simp add: has_shape_update)
      next
        case False
        then show ?thesis
          using s \<open>k' = metric\<close> assms(2) m' by (simp add: list_update_beyond)
      qed
    next
      case False
      then show ?thesis using s z m' by simp
    qed
  qed
  then show ?thesis
    using k unfolding bads_inv_def list_all_iff by auto
qed

lemma bads_inv_init:
  "bads_inv (map fst metrics) use n p
     (map (\<lambda>(m, f). (m, replicate n (replicate p False))) metrics)"
  unfolding bads_inv_def has_shape_def list_all_iff
  by (auto simp: o_def case_prod_beta)


lemma in_epochs_inv:
  assumes "faster_find_bad_channels_in_epochs lib epochs picks use_metrics thresh max_iter corr = Inr bads"
  shows "bads_inv (map fst (bad_channel_in_epoch_metrics lib (info_sfreq (ep_info epochs))))
           (metrics_to_use (bad_channel_in_epoch_metrics lib (info_sfreq (ep_info epochs))) use_metrics)
           (length (ep_data epochs)) (length picks) bads"
proof -
  let ?M = "bad_channel_in_epoch_metrics lib (info_sfreq (ep_info epochs))"
  let ?U = "metrics_to_use ?M use_metrics"
  let ?P = "bads_inv (map fst ?M) ?U (length (ep_data epochs)) (length picks)"
  show ?thesis
    using assms
    unfolding faster_find_bad_channels_in_epochs_def Let_def ebind_Inr
    apply (elim exE conjE)
    apply (erule efold_invariant [where P = ?P, rotated 2])
    subgoal for data x s s'
      apply (cases x)
      apply (simp add: ebind_Inr)
      apply (elim exE conjE)
      apply (erule efold_invariant [where P = ?P, rotated 2])
      subgoal for ch_type chs ch_names metric t t'
        apply (simp add: ebind_Inr)
        apply (elim exE conjE)
        apply (erule efold_invariant [where P = ?P, rotated 2])
        subgoal for f sub s_epochs y u u'
          apply (cases y)
          apply (auto simp: ebind_Inr Let_def split: if_splits dest: mask_assign_inv)
          done
        apply assumption
        done
      apply assumption
      done
    subgoal for data
      using bads_inv_init [of ?M ?U "length data" "length picks"]
      by (simp add: picked_data_def emap_length)
    done
qed

lemma row_add_zero:
  "map2 (+) xs (replicate (length xs) (0::nat)) = xs"
  "map2 (+) (replicate (length xs) (0::nat)) xs = xs"
  by (induction xs) simp_all

lemma add_arrays_zero:
  assumes "has_shape n p a"
  shows "add_arrays a (replicate n (replicate p 0)) = a"
    and "add_arrays (replicate n (replicate p 0)) a = a"
proof -
  have "list_all (\<lambda>row. length row = p) a \<Longrightarrow>
        map2 (map2 (+)) a (replicate (length a) (replicate p 0)) = a
        \<and> map2 (map2 (+)) (replicate (length a) (replicate p 0)) a = a" for a :: "nat list list"
  proof (induction a)
    case Nil
    then show ?case by simp
  next
    case (Cons r a)
    then show ?case using row_add_zero [of r] by auto
  qed
  then show "add_arrays a (replicate n (replicate p 0)) = a"
    and "add_arrays (replicate n (replicate p 0)) a = a"
    using assms unfolding has_shape_def add_arrays_def by auto
qed

lemma foldl_add_zero:
  assumes "has_shape n p a" and "\<forall>m\<in>set ms. m = replicate n (replicate p 0)"
  shows "foldl add_arrays a ms = a"
  using assms(2)
proof (induction ms)
  case Nil
  then show ?case by simp
next
  case (Cons m ms)
  then show ?case using add_arrays_zero(1) [OF assms(1)] by simp
qed

lemma mask_to_int_False:
  "mask_to_int (replicate n (replicate p False)) = replicate n (replicate p 0)"
  by (simp add: mask_to_int_def)

lemma mask_to_int_shape: "has_shape n p m \<Longrightarrow> has_shape n p (mask_to_int m)"
  by (simp add: has_shape_def mask_to_int_def list_all_iff)

lemma mask_of_int: "map (map ((<) 0)) (mask_to_int m) = m"
proof -
  have "map (\<lambda>b. (0::nat) < of_bool b) r = r" for r
    by (induction r) simp_all
  then show ?thesis by (simp add: mask_to_int_def o_def)
qed

lemma sum_masks_one:
  assumes "has_shape n p m"
    and "\<forall>a\<in>set pre. a = replicate n (replicate p False)"
    and "\<forall>a\<in>set post. a = replicate n (replicate p False)"
  shows "sum_masks (pre @ m # post) = m"
proof -
  let ?Z = "replicate n (replicate p (0::nat))"
  have s: "has_shape n p (mask_to_int m)" using assms(1) by (rule mask_to_int_shape)
  have zs: "has_shape n p ?Z" by (simp add: has_shape_def list_all_iff)
  have post: "\<forall>a\<in>set (map mask_to_int post). a = ?Z"
    using assms(3) by (auto simp: mask_to_int_False)
  have pre: "\<forall>a\<in>set (map mask_to_int pre). a = ?Z"
    using assms(2) by (auto simp: mask_to_int_False)
  have tail: "foldl add_arrays (mask_to_int m) (map mask_to_int post) = mask_to_int m"
    using s post by (rule foldl_add_zero)
  show ?thesis
  proof (cases pre)
    case Nil
    then show ?thesis by (simp add: sum_masks_def tail mask_of_int)
  next
    case (Cons a pre')
    then have a: "mask_to_int a = ?Z" and pre': "\<forall>a\<in>set (map mask_to_int pre'). a = ?Z"
      using pre by simp_all
    have "foldl add_arrays ?Z (map mask_to_int pre') = ?Z"
      using zs pre' by (rule foldl_add_zero)
    then have "foldl add_arrays ?Z (map mask_to_int pre' @ mask_to_int m # map mask_to_int post)
        = mask_to_int m"
      by (simp add: add_arrays_zero(2) [OF s] tail)
    then show ?thesis
      using Cons a by (simp add: sum_masks_def mask_of_int)
  qed
qed

lemma catalog_keys:
  "map fst (bad_channel_in_epoch_metrics lib sfreq)
     = [''amplitude'', ''deviation'', ''variance'', ''median_gradient'', ''line_noise'']"
  by (simp add: bad_channel_in_epoch_metrics_def)

lemma catalog_distinct: "distinct (map fst (bad_channel_in_epoch_metrics lib sfreq))"
  unfolding catalog_keys by simp

lemma sum_masks_single:
  assumes "bads_inv keys [metric] n p bads" and "distinct keys"
    and "map_of bads metric = Some m"
  shows "sum_masks (map snd bads) = m"
proof -
  have d: "distinct (map fst bads)" and
    inv: "\<And>k a. (k, a) \<in> set bads \<Longrightarrow>
            has_shape n p a \<and> (k \<noteq> metric \<longrightarrow> a = replicate n (replicate p False))"
    using assms(1,2) unfolding bads_inv_def list_all_iff by auto
  have "(metric, m) \<in> set bads" using assms(3) by (rule map_of_SomeD)
  then obtain pre post where b: "bads = pre @ (metric, m) # post"
    by (auto dest: split_list)
  have "metric \<notin> fst ` set pre" and "metric \<notin> fst ` set post"
    using d unfolding b by auto
  then have "\<forall>a\<in>set (map snd pre). a = replicate n (replicate p False)"
    and "\<forall>a\<in>set (map snd post). a = replicate n (replicate p False)"
    using inv unfolding b by force+
  moreover have "has_shape n p m" using inv [of metric m] unfolding b by simp
  ultimately have "sum_masks (map snd pre @ m # map snd post) = m"
    by (intro sum_masks_one) 
  then show ?thesis unfolding b by simp
qed

text \<open>
  C10. Whenever \<open>_find_bad_channels_in_epochs\<close> returns for a list \<open>use_metrics\<close>, the
  returned dictionary has the five keys of the catalog (amplitude, deviation, variance,
  median\_gradient, line\_noise), and the entry of every metric of the catalog that was
  not requested is the all-\<open>False\<close> mask of shape (epochs, picks).
\<close>

theorem C10_all_keys_present:
  assumes "faster_find_bad_channels_in_epochs lib epochs picks (Some use) thresh max_iter corr
             = Inr bads"
  shows "map fst bads = [''amplitude'', ''deviation'', ''variance'', ''median_gradient'', ''line_noise'']
       \<and> list_all (\<lambda>m. m \<in> set use
                     \<or> map_of bads m
                        = Some (replicate (length (ep_data epochs)) (replicate (length picks) False)))
           [''amplitude'', ''deviation'', ''variance'', ''median_gradient'', ''line_noise'']"
proof -
  let ?keys = "[''amplitude'', ''deviation'', ''variance'', ''median_gradient'', ''line_noise'']"
  let ?F = "replicate (length (ep_data epochs)) (replicate (length picks) False)"
  have inv: "bads_inv ?keys use (length (ep_data epochs)) (length picks) bads"
    using in_epochs_inv [OF assms] by (simp add: catalog_keys metrics_to_use_def)
  then have k: "map fst bads = ?keys" by (simp add: bads_inv_def)
  have "map_of bads m = Some ?F" if "m \<in> set ?keys" and "m \<notin> set use" for m
  proof -
    have "m \<in> fst ` set bads" using that(1) k by (metis list.set_map)
    then obtain a where a: "(m, a) \<in> set bads" by auto
    then have "a = ?F" using inv that(2) unfolding bads_inv_def list_all_iff by auto
    moreover have "distinct (map fst bads)" unfolding k by simp
    ultimately show ?thesis using a by (simp add: map_of_is_SomeI)
  qed
  then show ?thesis using k unfolding list_all_iff by blast
qed


lemma named_lookup:
  assumes "emap (\<lambda>(m, v). ebind (bad_mask_to_names info v) (\<lambda>names. Inr (m, names))) bads
             = Inr named"
    and "map_of named k = Some names"
  shows "\<exists>v. map_of bads k = Some v \<and> bad_mask_to_names info v = Inr names"
  using assms
proof (induction bads arbitrary: named)
  case Nil
  then show ?case by simp
next
  case (Cons b bads)
  obtain m v where b: "b = (m, v)" by (cases b)
  from Cons.prems(1) obtain ns rest where
    ns: "bad_mask_to_names info v = Inr ns"
    and rest: "emap (\<lambda>(m, v). ebind (bad_mask_to_names info v) (\<lambda>names. Inr (m, names))) bads
                 = Inr rest"
    and named: "named = (m, ns) # rest"
    unfolding b by (auto simp: ebind_Inr)
  show ?case
  proof (cases "k = m")
    case True
    then show ?thesis using Cons.prems(2) ns unfolding named b by simp
  next
    case False
    then have "map_of rest k = Some names" using Cons.prems(2) unfolding named by simp
    then show ?thesis using Cons.IH [OF rest] False unfolding b by simp
  qed
qed

text \<open>
  C5. Every mask that \<open>_find_bad_channels_in_epochs\<close> returns has as many rows as there
  are epochs and as many columns as there are picks. When exactly one metric is
  requested, the combination \<open>np.sum(list(bads.values()), axis=0).astype(bool)\<close> of all
  returned masks is that metric's own mask, so \<open>find_bad_channels_in_epochs\<close> without
  \<open>return_by_metric\<close> returns the names that it returns under that metric with
  \<open>return_by_metric\<close>.
\<close>

theorem C5_mask_shape_and_single_metric:
  "(faster_find_bad_channels_in_epochs lib epochs picks use_metrics thresh max_iter corr = Inr bads
      \<longrightarrow> list_all (\<lambda>(m, mask). length mask = length (ep_data epochs)
                        \<and> list_all (\<lambda>row. length row = length picks) mask) bads
          \<and> (\<forall>metric mask. use_metrics = Some [metric] \<and> map_of bads metric = Some mask
                \<longrightarrow> sum_masks (map snd bads) = mask))
   \<and> (handle_default lib ''bad_channels_in_epochs_faster'' method_params = Inr params
        \<and> p_use_metrics params = Some [metric]
        \<and> find_bad_channels_in_epochs lib epochs (Some picks) ''faster'' method_params True
            = Inr (By_metric named)
        \<and> map_of named metric = Some names
      \<longrightarrow> find_bad_channels_in_epochs lib epochs (Some picks) ''faster'' method_params False
            = Inr (Combined names))"
proof -
  have single: "sum_masks (map snd b) = mask"
    if r: "faster_find_bad_channels_in_epochs lib epochs picks (Some [metric]) t mi c = Inr b"
      and m: "map_of b metric = Some mask"
    for b metric mask t mi c
  proof -
    have "bads_inv (map fst (bad_channel_in_epoch_metrics lib (info_sfreq (ep_info epochs))))
            [metric] (length (ep_data epochs)) (length picks) b"
      using in_epochs_inv [OF r] by (simp add: metrics_to_use_def)
    then show ?thesis using catalog_distinct m by (rule sum_masks_single)
  qed
  have shape: "list_all (\<lambda>(m, mask). length mask = length (ep_data epochs)
                        \<and> list_all (\<lambda>row. length row = length picks) mask) bads"
    if r: "faster_find_bad_channels_in_epochs lib epochs picks use_metrics thresh max_iter corr = Inr bads"
    using in_epochs_inv [OF r] unfolding bads_inv_def has_shape_def list_all_iff by auto
  have e2e: "find_bad_channels_in_epochs lib epochs (Some picks) ''faster'' method_params False
            = Inr (Combined names)"
    if h: "handle_default lib ''bad_channels_in_epochs_faster'' method_params = Inr params"
      and u: "p_use_metrics params = Some [metric]"
      and t: "find_bad_channels_in_epochs lib epochs (Some picks) ''faster'' method_params True
            = Inr (By_metric named)"
      and n: "map_of named metric = Some names"
  proof -
    let ?info = "pick_info lib (ep_info epochs) picks"
    from t h u obtain b where
      b: "faster_find_bad_channels_in_epochs lib epochs picks (Some [metric])
            (p_thresh params) (p_max_iter params) (p_eeg_ref_corr params) = Inr b"
      and nm: "emap (\<lambda>(m, v). ebind (bad_mask_to_names ?info v) (\<lambda>names. Inr (m, names))) b
                 = Inr named"
      unfolding find_bad_channels_in_epochs_def Let_def
      by (auto simp: ebind_Inr)
    from named_lookup [OF nm n] obtain v where
      v: "map_of b metric = Some v" and vn: "bad_mask_to_names ?info v = Inr names"
      by blast
    have "sum_masks (map snd b) = v" using b v by (rule single)
    then show ?thesis
      unfolding find_bad_channels_in_epochs_def Let_def
      using h u b vn by (simp add: ebind_def)
  qed
  show ?thesis using single shape e2e by blast
qed


lemma example_outliers:
  "find_outliers example_lib [0, 0, 0, 0, 10] 1 1 = [4]"
  "find_outliers example_lib [5, 0, 0, 0, 0] 1 1 = [0]"
proof -
  have n: "nat 1 = Suc 0" by simp
  have a: "select_loop [0, 0, 0, 0, 10] 1 (Suc 0) [0..<5] [] = [4]"
    by (simp add: flag_outliers_code Let_def np_mean_def np_var_def upt_rec power2_eq_square)
  have b: "select_loop [5, 0, 0, 0, 0] 1 (Suc 0) [0..<5] [] = [0]"
    by (simp add: flag_outliers_code Let_def np_mean_def np_var_def upt_rec power2_eq_square)
  have l: "length [0, 0, 0, 0, 10::real] = 5" "length [5, 0, 0, 0, 0::real] = 5" by simp_all
  have "select_outliers [0, 0, 0, 0, 10] 1 1 = {4}"
    unfolding select_outliers_def l n a by simp
  then show "find_outliers example_lib [0, 0, 0, 0, 10] 1 1 = [4]"
    by (simp add: example_lib_def)
  have "select_outliers [5, 0, 0, 0, 0] 1 1 = {0}"
    unfolding select_outliers_def l n b by simp
  then show "find_outliers example_lib [5, 0, 0, 0, 0] 1 1 = [0]"
    by (simp add: example_lib_def)
qed

lemma example_selection:
  "pick_info example_lib (ep_info example_epochs) [0, 1, 2, 3, 4] = ep_info example_epochs"
  "picks_by_type example_lib (ep_info example_epochs) = [(''eeg'', [0, 1, 2, 3, 4])]"
  by (simp_all add: example_lib_def example_epochs_def upt_rec)

lemma example_amplitude:
  "faster_find_bad_channels_in_epochs example_lib example_epochs [0, 1, 2, 3, 4]
     (Some [''amplitude'']) 1 1 False
   = Inr [(''amplitude'', [[False, False, False, False, True], [True, False, False, False, False]]),
          (''deviation'', [[False, False, False, False, False], [False, False, False, False, False]]),
          (''variance'', [[False, False, False, False, False], [False, False, False, False, False]]),
          (''median_gradient'', [[False, False, False, False, False], [False, False, False, False, False]]),
          (''line_noise'', [[False, False, False, False, False], [False, False, False, False, False]])]"
  unfolding faster_find_bad_channels_in_epochs_def Let_def example_selection
  apply (simp add: picked_data_def select_def ebind_def metrics_to_use_def lookup_metric_def
      bad_channel_in_epoch_metrics_def np_ptp_def mask_assign_def nth_err_def
      example_epochs_def example_outliers enumerate_eq_zip upt_rec)
  done

lemma example_handle_default:
  "handle_default example_lib ''bad_channels_in_epochs_faster''
     (Some \<lparr>p_use_metrics = Some [''amplitude''], p_thresh = 1, p_max_iter = 1,
            p_eeg_ref_corr = False\<rparr>)
   = Inr \<lparr>p_use_metrics = Some [''amplitude''], p_thresh = 1, p_max_iter = 1,
          p_eeg_ref_corr = False\<rparr>"
  by (simp add: example_lib_def)


lemma example_names:
  "bad_mask_to_names (ep_info example_epochs)
     [[False, False, False, False, True], [True, False, False, False, False]]
   = Inr [[''T7''], [''Fz'']]"
  "bad_mask_to_names (ep_info example_epochs)
     [[False, False, False, False, False], [False, False, False, False, False]]
   = Inr [[], []]"
  by (simp_all add: bad_mask_to_names_def example_epochs_def nth_err_def ebind_def)


lemma example_by_metric:
  "find_bad_channels_in_epochs example_lib example_epochs (Some [0, 1, 2, 3, 4]) ''faster''
     (Some \<lparr>p_use_metrics = Some [''amplitude''], p_thresh = 1, p_max_iter = 1,
            p_eeg_ref_corr = False\<rparr>) True
   = Inr (By_metric [(''amplitude'', [[''T7''], [''Fz'']]), (''deviation'', [[], []]),
                     (''variance'', [[], []]), (''median_gradient'', [[], []]),
                     (''line_noise'', [[], []])])"
  unfolding find_bad_channels_in_epochs_def Let_def
  by (simp add: example_handle_default example_amplitude example_selection example_names
      ebind_def del: One_nat_def)


theorem C5_mask_shape_and_single_metric_witness:
  "faster_find_bad_channels_in_epochs example_lib example_epochs [0, 1, 2, 3, 4]
     (Some [''amplitude'']) 1 1 False
   = Inr [(''amplitude'', [[False, False, False, False, True], [True, False, False, False, False]]),
          (''deviation'', [[False, False, False, False, False], [False, False, False, False, False]]),
          (''variance'', [[False, False, False, False, False], [False, False, False, False, False]]),
          (''median_gradient'', [[False, False, False, False, False], [False, False, False, False, False]]),
          (''line_noise'', [[False, False, False, False, False], [False, False, False, False, False]])]
   \<and> sum_masks
        [[[False, False, False, False, True], [True, False, False, False, False]],
         [[False, False, False, False, False], [False, False, False, False, False]],
         [[False, False, False, False, False], [False, False, False, False, False]],
         [[False, False, False, False, False], [False, False, False, False, False]],
         [[False, False, False, False, False], [False, False, False, False, False]]]
       = [[False, False, False, False, True], [True, False, False, False, False]]
   \<and> find_bad_channels_in_epochs example_lib example_epochs (Some [0, 1, 2, 3, 4]) ''faster''
        (Some \<lparr>p_use_metrics = Some [''amplitude''], p_thresh = 1, p_max_iter = 1,
               p_eeg_ref_corr = False\<rparr>) True
       = Inr (By_metric [(''amplitude'', [[''T7''], [''Fz'']]), (''deviation'', [[], []]),
                     (''variance'', [[], []]), (''median_gradient'', [[], []]),
                     (''line_noise'', [[], []])])
   \<and> find_bad_channels_in_epochs example_lib example_epochs (Some [0, 1, 2, 3, 4]) ''faster''
        (Some \<lparr>p_use_metrics = Some [''amplitude''], p_thresh = 1, p_max_iter = 1,
               p_eeg_ref_corr = False\<rparr>) False
       = Inr (Combined [[''T7''], [''Fz'']])"
proof -
  let ?p = "\<lparr>p_use_metrics = Some [''amplitude''], p_thresh = 1, p_max_iter = 1,
             p_eeg_ref_corr = False\<rparr>"
  let ?m = "[[False, False, False, False, True], [True, False, False, False, False]]"
  let ?z = "[[False, False, False, False, False], [False, False, False, False, False]]"
  let ?b = "[(''amplitude'', ?m), (''deviation'', ?z), (''variance'', ?z),
             (''median_gradient'', ?z), (''line_noise'', ?z)]"
  let ?named = "[(''amplitude'', [[''T7''], [''Fz'']]), (''deviation'', [[], []]),
                     (''variance'', [[], []]), (''median_gradient'', [[], []]),
                     (''line_noise'', [[], []])]"
  note c5 = C5_mask_shape_and_single_metric [of example_lib example_epochs "[0, 1, 2, 3, 4]"
      "Some [''amplitude'']" 1 1 False ?b "Some ?p" ?p "''amplitude''" ?named "[[''T7''], [''Fz'']]"]
  have l: "map_of ?b ''amplitude'' = Some ?m" by simp
  have "sum_masks (map snd ?b) = ?m"
    using c5 [THEN conjunct1] example_amplitude l by blast
  then have a: "sum_masks [?m, ?z, ?z, ?z, ?z] = ?m" by simp
  have u: "p_use_metrics ?p = Some [''amplitude'']" by simp
  have n: "map_of ?named ''amplitude'' = Some [[''T7''], [''Fz'']]" by simp
  have b: "find_bad_channels_in_epochs example_lib example_epochs (Some [0, 1, 2, 3, 4]) ''faster''
        (Some ?p) False = Inr (Combined [[''T7''], [''Fz'']])"
    using c5 [THEN conjunct2] example_handle_default u example_by_metric n by blast
  show ?thesis using example_amplitude a example_by_metric b by blast
qed

theorem C10_all_keys_present_witness:
  "faster_find_bad_channels_in_epochs example_lib example_epochs [0, 1, 2, 3, 4]
     (Some [''amplitude'']) 1 1 False
   = Inr [(''amplitude'', [[False, False, False, False, True], [True, False, False, False, False]]),
          (''deviation'', [[False, False, False, False, False], [False, False, False, False, False]]),
          (''variance'', [[False, False, False, False, False], [False, False, False, False, False]]),
          (''median_gradient'', [[False, False, False, False, False], [False, False, False, False, False]]),
          (''line_noise'', [[False, False, False, False, False], [False, False, False, False, False]])]
   \<and> list_all (\<lambda>m. m \<in> set [''amplitude'']
                 \<or> map_of [(''amplitude'', [[False, False, False, False, True], [True, False, False, False, False]]),
          (''deviation'', [[False, False, False, False, False], [False, False, False, False, False]]),
          (''variance'', [[False, False, False, False, False], [False, False, False, False, False]]),
          (''median_gradient'', [[False, False, False, False, False], [False, False, False, False, False]]),
          (''line_noise'', [[False, False, False, False, False], [False, False, False, False, False]])] m
                    = Some (replicate (length (ep_data example_epochs)) (replicate (length [0, 1, 2, 3, 4 :: nat]) False)))
           [''amplitude'', ''deviation'', ''variance'', ''median_gradient'', ''line_noise'']"
  using C10_all_keys_present [OF example_amplitude] example_amplitude by blast

subsection \<open>The default metric catalogs\<close>

lemma keys:
  "metrics_to_use (bad_channel_metrics lib sfreq) None
     = [''variance'', ''correlation'', ''hurst'', ''kurtosis'', ''line_noise'']"
  "metrics_to_use bad_epoch_metrics None = [''amplitude'', ''deviation'', ''variance'']"
  "metrics_to_use (bad_channel_in_epoch_metrics lib sfreq) None
     = [''amplitude'', ''deviation'', ''variance'', ''median_gradient'', ''line_noise'']"
  by (simp_all add: metrics_to_use_def bad_channel_metrics_def bad_epoch_metrics_def
      bad_channel_in_epoch_metrics_def)



end
